theory Spec2Isabelle
  imports Complex_Main "HOL-Library.Word" "HOL-Library.Char_ord" "HOL-Library.List_Lexorder"
    "HOL-Library.Multiset"
begin

section \<open>JavaScript numbers\<close>

text \<open>
  ClawDice computes multipliers and payouts with JavaScript numbers, which are IEEE 754
  binary64 values. A finite double is the rational it denotes; the two infinities and
  NaN are separate values. The sign of zero is not modelled (\<open>-0\<close> and \<open>+0\<close> are the same
  \<open>Num 0\<close>); no function of the program is called below with a negative zero.
\<close>

datatype jsnum = Num rat | PosInf | NegInf | NaN

text \<open>The number of binary digits of a positive integer.\<close>

function bitlen :: "int \<Rightarrow> int" where
  "bitlen n = (if n \<le> 0 then 0 else 1 + bitlen (n div 2))"
  by pat_completeness auto
termination
  by (relation "measure nat") auto

declare bitlen.simps [simp del]

text \<open>The binary exponent \<open>\<lfloor>log\<^sub>2 x\<rfloor>\<close> of a positive rational.\<close>

definition ilog2 :: "rat \<Rightarrow> int" where
  "ilog2 x = (if 1 \<le> x then bitlen \<lfloor>x\<rfloor> - 1 else - bitlen (\<lceil>1 / x\<rceil> - 1))"

text \<open>Rounding to the nearest integer, a tie going to the even one.\<close>

definition round_half_even :: "rat \<Rightarrow> int" where
  "round_half_even q =
     (let f = \<lfloor>q\<rfloor>; d = q - of_int f in
      if d < 1 / 2 then f
      else if 1 / 2 < d then f + 1
      else if even f then f else f + 1)"

text \<open>
  The spacing of the doubles around \<open>x\<close>: 53 significant bits, and the fixed spacing
  \<open>2\<^sup>-\<^sup>1\<^sup>0\<^sup>7\<^sup>4\<close> of the subnormal range below \<open>2\<^sup>-\<^sup>1\<^sup>0\<^sup>2\<^sup>2\<close>.
\<close>

definition ulp :: "rat \<Rightarrow> rat" where
  "ulp x = 2 powi (max (ilog2 \<bar>x\<bar>) (- 1022) - 52)"

definition round_double :: "rat \<Rightarrow> rat" where
  "round_double x =
     (if x = 0 then 0 else of_int (round_half_even (x / ulp x)) * ulp x)"

text \<open>
  The result of an arithmetic operation whose exact value is \<open>x\<close>: round to nearest,
  ties to even, and overflow to an infinity when the rounded value reaches \<open>2\<^sup>1\<^sup>0\<^sup>2\<^sup>4\<close>.
\<close>

definition to_double :: "rat \<Rightarrow> jsnum" where
  "to_double x =
     (let r = round_double x in
      if 2 ^ 1024 \<le> r then PosInf
      else if r \<le> - (2 ^ 1024) then NegInf
      else Num r)"

fun js_neg :: "jsnum \<Rightarrow> jsnum" where
  "js_neg (Num a) = Num (- a)"
| "js_neg PosInf = NegInf"
| "js_neg NegInf = PosInf"
| "js_neg NaN = NaN"

fun js_add :: "jsnum \<Rightarrow> jsnum \<Rightarrow> jsnum" where
  "js_add (Num a) (Num b) = to_double (a + b)"
| "js_add NaN _ = NaN"
| "js_add _ NaN = NaN"
| "js_add PosInf NegInf = NaN"
| "js_add NegInf PosInf = NaN"
| "js_add PosInf _ = PosInf"
| "js_add NegInf _ = NegInf"
| "js_add _ PosInf = PosInf"
| "js_add _ NegInf = NegInf"

definition js_sub :: "jsnum \<Rightarrow> jsnum \<Rightarrow> jsnum" where
  "js_sub x y = js_add x (js_neg y)"

fun js_mul :: "jsnum \<Rightarrow> jsnum \<Rightarrow> jsnum" where
  "js_mul (Num a) (Num b) = to_double (a * b)"
| "js_mul NaN _ = NaN"
| "js_mul _ NaN = NaN"
| "js_mul (Num a) y = (if a = 0 then NaN else if 0 < a then y else js_neg y)"
| "js_mul x (Num b) = (if b = 0 then NaN else if 0 < b then x else js_neg x)"
| "js_mul PosInf y = y"
| "js_mul NegInf y = js_neg y"

fun js_div :: "jsnum \<Rightarrow> jsnum \<Rightarrow> jsnum" where
  "js_div (Num a) (Num b) =
     (if b = 0 then (if a = 0 then NaN else if 0 < a then PosInf else NegInf)
      else to_double (a / b))"
| "js_div NaN _ = NaN"
| "js_div _ NaN = NaN"
| "js_div (Num a) _ = Num 0"
| "js_div x (Num b) = (if 0 \<le> b then x else js_neg x)"
| "js_div _ _ = NaN"

text \<open>The relational operators; every comparison with NaN is false.\<close>

fun js_lt :: "jsnum \<Rightarrow> jsnum \<Rightarrow> bool" where
  "js_lt (Num a) (Num b) = (a < b)"
| "js_lt NaN _ = False"
| "js_lt _ NaN = False"
| "js_lt NegInf y = (y \<noteq> NegInf)"
| "js_lt x PosInf = (x \<noteq> PosInf)"
| "js_lt _ _ = False"

definition js_gt :: "jsnum \<Rightarrow> jsnum \<Rightarrow> bool" where
  "js_gt x y = js_lt y x"

definition js_ge :: "jsnum \<Rightarrow> jsnum \<Rightarrow> bool" where
  "js_ge x y = (x \<noteq> NaN \<and> y \<noteq> NaN \<and> \<not> js_lt x y)"

text \<open>Strict equality \<open>===\<close> of two numbers: NaN equals nothing.\<close>

definition js_strict_eq :: "jsnum \<Rightarrow> jsnum \<Rightarrow> bool" where
  "js_strict_eq x y = (x \<noteq> NaN \<and> x = y)"

text \<open>\<open>Math.floor\<close>, \<open>Math.round\<close> (halves go up) and \<open>Math.min\<close> of two arguments.\<close>

fun js_floor :: "jsnum \<Rightarrow> jsnum" where
  "js_floor (Num a) = Num (of_int \<lfloor>a\<rfloor>)"
| "js_floor x = x"

fun js_round :: "jsnum \<Rightarrow> jsnum" where
  "js_round (Num a) = Num (of_int \<lfloor>a + 1 / 2\<rfloor>)"
| "js_round x = x"

definition js_min :: "jsnum \<Rightarrow> jsnum \<Rightarrow> jsnum" where
  "js_min x y = (if x = NaN \<or> y = NaN then NaN else if js_lt y x then y else x)"

subsection \<open>parseInt\<close>

text \<open>
  \<open>parseInt(s)\<close> without a radix: leading white space is skipped, a sign is read, a
  \<open>0x\<close> prefix selects radix 16, and the longest prefix of digits is converted; no digit
  at all gives NaN. A character of the model is a code unit below 256; the white space of
  ECMAScript among these is tab, line feed, vertical tab, form feed, carriage return,
  space and the no-break space (160).
\<close>

definition is_ws :: "char \<Rightarrow> bool" where
  "is_ws c = (of_char c \<in> {9, 10, 11, 12, 13, 32, 160 :: int})"

definition digit_val :: "char \<Rightarrow> int" where
  "digit_val c =
     (let n = of_char c :: int in
      if 48 \<le> n \<and> n \<le> 57 then n - 48
      else if 97 \<le> n \<and> n \<le> 122 then n - 87
      else if 65 \<le> n \<and> n \<le> 90 then n - 55
      else 36)"

definition is_digit :: "int \<Rightarrow> char \<Rightarrow> bool" where
  "is_digit radix c = (digit_val c < radix)"

definition digits_value :: "int \<Rightarrow> string \<Rightarrow> int" where
  "digits_value radix z = foldl (\<lambda>acc c. acc * radix + digit_val c) 0 z"

definition parseInt :: "string \<Rightarrow> jsnum" where
  "parseInt s =
     (let S = dropWhile is_ws s;
          neg = (S \<noteq> [] \<and> hd S = CHR ''-'');
          S1 = (if S \<noteq> [] \<and> (hd S = CHR ''-'' \<or> hd S = CHR ''+'') then tl S else S);
          hex = (take 2 S1 = ''0x'' \<or> take 2 S1 = ''0X'');
          R = (if hex then 16 else 10);
          S2 = (if hex then drop 2 S1 else S1);
          Z = takeWhile (is_digit R) S2
      in if Z = [] then NaN
         else to_double ((if neg then - 1 else 1) * of_int (digits_value R Z)))"

section \<open>Configuration (config.js)\<close>

text \<open>
  The configuration object. The fields read from the environment are numbers; the two
  defaults \<open>defaultTarget\<close> and \<open>defaultBet\<close> are integer literals of the source.
\<close>

record config =
  maxRoll :: jsnum
  houseEdge :: jsnum
  defaultTarget :: int
  minBet :: jsnum
  maxBet :: jsnum
  defaultBet :: int
  bankroll_initial :: jsnum
  pauseThreshold :: jsnum
  safetyFactor :: jsnum
  devMode :: bool

text \<open>The configuration when no environment variable is set.\<close>

definition default_config :: config where
  "default_config =
     \<lparr> maxRoll = Num 65535,
       houseEdge = to_double (15 / 1000),
       defaultTarget = 32768,
       minBet = Num 10,
       maxBet = Num 50000,
       defaultBet = 100,
       bankroll_initial = Num 1000000,
       pauseThreshold = Num 100000,
       safetyFactor = Num 3,
       devMode = True \<rparr>"

definition getMultiplier :: "config \<Rightarrow> jsnum \<Rightarrow> jsnum" where
  "getMultiplier cfg tgt =
     (let winProbability = js_div tgt (js_add (maxRoll cfg) (Num 1));
          fairMultiplier = js_div (Num 1) winProbability
      in js_mul fairMultiplier (js_sub (Num 1) (houseEdge cfg)))"

definition getDynamicMaxBet :: "config \<Rightarrow> jsnum \<Rightarrow> jsnum" where
  "getDynamicMaxBet cfg currentBankroll =
     (let highestMultiplier = getMultiplier cfg (Num 1);
          bankrollLimit =
            js_floor (js_div (js_div currentBankroll highestMultiplier) (safetyFactor cfg))
      in js_min (maxBet cfg) bankrollLimit)"

text \<open>
  The multiplier of the specification, in exact arithmetic:
  \<open>winProbability = threshold / 65536\<close>, \<open>fairMultiplier = 1 / winProbability\<close>,
  \<open>multiplier = fairMultiplier * (1 - houseEdge)\<close>.
\<close>

definition spec_multiplier :: "rat \<Rightarrow> rat \<Rightarrow> rat" where
  "spec_multiplier edge threshold = (1 / (threshold / 65536)) * (1 - edge)"

section \<open>The dice engine (dice.js)\<close>

text \<open>
  SHA-256 and HMAC-SHA256 come from the platform's \<open>crypto\<close> module; they are parameters
  of the model. A digest is 32 bytes, read as one 256-bit big-endian word.
\<close>

record crypto =
  sha256_hex :: "string \<Rightarrow> string"
  hmac_sha256 :: "string \<Rightarrow> string \<Rightarrow> 256 word"

definition commitSeed :: "crypto \<Rightarrow> string \<Rightarrow> string" where
  "commitSeed cr seed = sha256_hex cr seed"

text \<open>\<open>readUInt16BE(0)\<close>: the first two bytes of the digest as an unsigned integer.\<close>

definition readUInt16BE0 :: "256 word \<Rightarrow> int" where
  "readUInt16BE0 d = uint (drop_bit 240 d)"

definition generateRoll :: "crypto \<Rightarrow> string \<Rightarrow> string \<Rightarrow> jsnum" where
  "generateRoll cr seed entropy = Num (of_int (readUInt16BE0 (hmac_sha256 cr seed entropy)))"

record game_result =
  roll :: jsnum
  target :: jsnum
  result :: string
  betSats :: jsnum
  multiplier :: jsnum
  payoutSats :: jsnum
  serverSeed :: string
  serverSeedHash :: string
  clientEntropy :: string

definition resolveGame ::
  "config \<Rightarrow> crypto \<Rightarrow> jsnum \<Rightarrow> jsnum \<Rightarrow> string \<Rightarrow> string \<Rightarrow> game_result" where
  "resolveGame cfg cr tgt bet seed entropy =
     (let r = generateRoll cr seed entropy;
          m = getMultiplier cfg tgt;
          win = js_lt r tgt;
          payout = (if win then js_floor (js_mul bet m) else Num 0)
      in \<lparr> roll = r,
           target = tgt,
           result = (if win then ''win'' else ''loss''),
           betSats = bet,
           multiplier = js_div (js_round (js_mul m (Num 1000))) (Num 1000),
           payoutSats = payout,
           serverSeed = seed,
           serverSeedHash = commitSeed cr seed,
           clientEntropy = entropy \<rparr>)"

text \<open>
  The two shapes of the object \<open>verifyGame\<close> returns: \<open>{verified: false, reason}\<close> and
  \<open>{verified: true, serverSeed, serverSeedHash, clientEntropy, computedRoll, target,
  result}\<close>.
\<close>

datatype verification =
    Unverified (reason: string)
  | Verified (vSeed: string) (vHash: string) (vEntropy: string)
      (computedRoll: jsnum) (vTarget: jsnum) (vResult: string)

definition verified :: "verification \<Rightarrow> bool" where
  "verified v = (case v of Unverified _ \<Rightarrow> False | Verified _ _ _ _ _ _ \<Rightarrow> True)"

definition verifyGame ::
  "crypto \<Rightarrow> string \<Rightarrow> string \<Rightarrow> string \<Rightarrow> jsnum \<Rightarrow> jsnum \<Rightarrow> verification" where
  "verifyGame cr seed seedHash entropy r tgt =
     (let computedHash = commitSeed cr seed in
      if computedHash \<noteq> seedHash
      then Unverified ''Server seed does not match committed hash''
      else
        let computed = generateRoll cr seed entropy in
        if \<not> js_strict_eq computed r
        then Unverified ''Roll does not match HMAC computation''
        else Verified seed seedHash entropy computed tgt
               (if js_lt r tgt then ''win'' else ''loss''))"

section \<open>The game ledger (db.js)\<close>

text \<open>
  One row of the table \<open>games\<close>. The columns \<open>id\<close>, \<open>roll\<close>, \<open>target\<close>, \<open>result\<close> and
  \<open>multiplier\<close> carry the prefix \<open>row_\<close>. \<open>player_pubkey\<close> is the only nullable column
  that is written. The table \<open>bankroll_log\<close> is created and never written or read.
\<close>

record game_row =
  row_id :: string
  row_roll :: jsnum
  row_target :: jsnum
  row_result :: string
  bet_sats :: jsnum
  row_multiplier :: jsnum
  payout_sats :: jsnum
  payout_method :: string
  payout_status :: string
  server_seed :: string
  server_seed_hash :: string
  client_entropy :: string
  player_pubkey :: "string option"
  created_at :: string

type_synonym db = "game_row list"

text \<open>
  The object the roll handler saves: the result of \<open>resolveGame\<close> spread into a record
  with the identifier, the payout method and status, and the player.
\<close>

record game_record = game_result +
  gid :: string
  payoutMethod :: string
  payoutStatus :: string
  playerPubkey :: "string option"

datatype db_error = PrimaryKeyConstraint | NotNullConstraint

text \<open>\<open>a || b\<close> on strings: the empty string is falsy.\<close>

definition or_else :: "string \<Rightarrow> string \<Rightarrow> string" where
  "or_else a b = (if a = [] then b else a)"

definition or_null :: "string option \<Rightarrow> string option" where
  "or_null a = (case a of None \<Rightarrow> None | Some s \<Rightarrow> if s = [] then None else Some s)"

text \<open>
  \<open>saveGame\<close>: the \<open>INSERT\<close>, which throws when a \<open>NOT NULL\<close> column receives no value
  (SQLite stores a NaN that is bound to a parameter as \<open>NULL\<close>) or, that test passed,
  when the primary key exists already, followed by \<open>saveDb\<close>, which is taken to succeed.
  The clock of \<open>datetime('now')\<close> is the argument \<open>now\<close>.
\<close>

definition saveGame :: "db \<Rightarrow> 'a game_record_scheme \<Rightarrow> string \<Rightarrow> db_error + db" where
  "saveGame d game now =
     (if roll game = NaN \<or> target game = NaN \<or> betSats game = NaN
         \<or> multiplier game = NaN \<or> payoutSats game = NaN
      then Inl NotNullConstraint
      else if gid game \<in> set (map row_id d) then Inl PrimaryKeyConstraint
      else Inr (d @
        [\<lparr> row_id = gid game,
           row_roll = roll game,
           row_target = target game,
           row_result = result game,
           bet_sats = betSats game,
           row_multiplier = multiplier game,
           payout_sats = payoutSats game,
           payout_method = or_else (payoutMethod game) ''keysend'',
           payout_status = or_else (payoutStatus game)
             (if result game = ''loss'' then ''n/a'' else ''pending''),
           server_seed = serverSeed game,
           server_seed_hash = serverSeedHash game,
           client_entropy = clientEntropy game,
           player_pubkey = or_null (playerPubkey game),
           created_at = now \<rparr>]))"

definition getGame :: "db \<Rightarrow> string \<Rightarrow> game_row option" where
  "getGame d gameId = find (\<lambda>r. row_id r = gameId) d"

subsection \<open>The leaderboard query\<close>

text \<open>
  The query of \<open>getLeaderboard\<close> is evaluated by SQLite, which sql.js wraps. Its values
  are \<open>NULL\<close>, 64-bit integers and doubles. sql.js binds a JavaScript number as a double
  unless it is a 32-bit integer, and SQLite stores a NaN as \<open>NULL\<close>; a column of
  \<open>INTEGER\<close> affinity turns a double into an integer when it is integral and lies
  strictly between the least and the greatest 64-bit integer. The same conversion is
  applied to the operand of \<open>LIMIT\<close>.
\<close>

datatype sqlval = SqlNull | SqlInt int | SqlReal jsnum





text \<open>
  The comparison SQLite sorts by: \<open>NULL\<close> before every number, and numbers by their
  exact value, whether integer or double.
\<close>

definition sql_lt :: "jsnum \<Rightarrow> jsnum \<Rightarrow> bool" where
  "sql_lt x y = (if x = NaN then y \<noteq> NaN else if y = NaN then False else js_lt x y)"

fun sql_num :: "sqlval \<Rightarrow> jsnum" where
  "sql_num SqlNull = NaN"
| "sql_num (SqlInt i) = Num (of_int i)"
| "sql_num (SqlReal r) = r"

definition sql_less :: "sqlval \<Rightarrow> sqlval \<Rightarrow> bool" where
  "sql_less a b = sql_lt (sql_num a) (sql_num b)"









text \<open>
  A row of the result, with the values of the engine (\<open>sqlval\<close>) or with the values
  \<open>getLeaderboard\<close> returns (a number, or \<open>None\<close> for \<open>null\<close>).
\<close>

record 'v leaderboard_row =
  lb_player_pubkey :: string
  games :: 'v
  total_wagered :: 'v
  total_won :: 'v
  net_profit :: 'v
  biggest_win :: 'v











text \<open>
  sql.js hands every number to JavaScript as a double, an integer being converted to
  the nearest one. \<open>getLeaderboard\<close> returns the rows as objects, and throws when the
  query fails.
\<close>

fun js_value :: "sqlval \<Rightarrow> jsnum option" where
  "js_value SqlNull = None"
| "js_value (SqlInt i) = Some (to_double (of_int i))"
| "js_value (SqlReal r) = Some r"

definition js_row :: "sqlval leaderboard_row \<Rightarrow> jsnum option leaderboard_row" where
  "js_row q =
     \<lparr> lb_player_pubkey = lb_player_pubkey q,
       games = js_value (games q),
       total_wagered = js_value (total_wagered q),
       total_won = js_value (total_won q),
       net_profit = js_value (net_profit q),
       biggest_win = js_value (biggest_win q) \<rparr>"


section \<open>Payout delivery (payout.js)\<close>

text \<open>
  \<open>sendPayout\<close> returns the stub response in development mode and throws in production,
  where the keysend is not implemented.
\<close>

definition sendPayout :: "config \<Rightarrow> string option \<Rightarrow> jsnum \<Rightarrow> string \<Rightarrow> string + string" where
  "sendPayout cfg pubkey amountSats gameId =
     (if devMode cfg then Inr ''sent''
      else Inl ''Production LND payouts not yet implemented. Set NODE_ENV=development to use stub payouts.'')"

section \<open>The HTTP handlers (server.js)\<close>

text \<open>
  A request carries the query parameters and headers the handlers read. The values the
  handler draws at random or from the clock are collected in \<open>env\<close>.
\<close>

record request =
  q_target :: "string option"
  q_bet :: "string option"
  q_payout :: "string option"
  q_pubkey :: "string option"
  h_authorization :: "string option"
  h_x_player_pubkey :: "string option"

record env =
  new_serverSeed :: string
  new_devEntropy :: string
  new_gameId :: string
  now :: string

text \<open>
  A JSON body is an object of named values. Of the response bodies, the human-readable
  \<open>message\<close>, \<open>hint\<close> and \<open>how_to_verify\<close> texts, the formatted \<open>win_probability\<close> and
  the \<open>timestamp\<close> are left out.
\<close>

datatype json = JNum jsnum | JStr string | JBool bool | JNull | JObj "(string \<times> json) list"

record response =
  status :: int
  body :: "(string \<times> json) list"

definition field :: "response \<Rightarrow> string \<Rightarrow> json option" where
  "field r k = map_of (body r) k"

definition error_response :: "int \<Rightarrow> string \<Rightarrow> response" where
  "error_response code err = \<lparr> status = code, body = [(''error'', JStr err)] \<rparr>"

fun split_on :: "char \<Rightarrow> string \<Rightarrow> string list" where
  "split_on c [] = [[]]"
| "split_on c (x # xs) =
     (if x = c then [] # split_on c xs
      else (case split_on c xs of p # ps \<Rightarrow> (x # p) # ps | [] \<Rightarrow> [[x]]))"

definition trim :: "string \<Rightarrow> string" where
  "trim s = rev (dropWhile is_ws (rev (dropWhile is_ws s)))"

definition extractClientEntropy :: "config \<Rightarrow> env \<Rightarrow> request \<Rightarrow> string option" where
  "extractClientEntropy cfg e req =
     (let fromHeader =
        (case h_authorization req of
           None \<Rightarrow> None
         | Some authHeader \<Rightarrow>
             if take 5 authHeader = ''L402 ''
             then (let parts = split_on (CHR '':'') authHeader in
                   if 2 \<le> length parts then Some (trim (last parts)) else None)
             else None)
      in case fromHeader of
           Some p \<Rightarrow> Some p
         | None \<Rightarrow> if devMode cfg then Some (new_devEntropy e) else None)"

definition extractPlayerPubkey :: "request \<Rightarrow> string option" where
  "extractPlayerPubkey req =
     (case or_null (h_x_player_pubkey req) of
        Some p \<Rightarrow> Some p
      | None \<Rightarrow> or_null (q_pubkey req))"

text \<open>\<open>parseInt(req.query.x || dflt)\<close>, the default being an integer of the configuration.\<close>

definition parse_param :: "string option \<Rightarrow> int \<Rightarrow> jsnum" where
  "parse_param q dflt =
     (case or_null q of Some s \<Rightarrow> parseInt s | None \<Rightarrow> to_double (of_int dflt))"


definition roll_handler ::
  "config \<Rightarrow> crypto \<Rightarrow> env \<Rightarrow> request \<Rightarrow> db \<Rightarrow> response \<times> db" where
  "roll_handler cfg cr e req d =
     (let tgt = parse_param (q_target req) (defaultTarget cfg);
          bet = parse_param (q_bet req) (defaultBet cfg);
          payoutMeth = (case or_null (q_payout req) of Some m \<Rightarrow> m | None \<Rightarrow> ''keysend'')
      in
      if js_lt tgt (Num 1) \<or> js_gt tgt (maxRoll cfg)
      then (error_response 400 ''invalid_target'', d)
      else if js_lt bet (minBet cfg) \<or> js_gt bet (maxBet cfg)
      then (error_response 400 ''invalid_bet'', d)
      else
        (case or_null (extractClientEntropy cfg e req) of
           None \<Rightarrow> (error_response 402 ''payment_required'', d)
         | Some entropy \<Rightarrow>
            (let seed = new_serverSeed e;
                 gameResult = resolveGame cfg cr tgt bet seed entropy;
                 gameId = new_gameId e;
                 pubkey = extractPlayerPubkey req;
                 gameRecord = game_result.extend gameResult
                   (game_record.fields gameId payoutMeth
                      (if result gameResult = ''loss'' then ''n/a'' else ''pending'') pubkey)
             in
             case saveGame d gameRecord (now e) of
               Inl err \<Rightarrow> (error_response 500 ''internal'', d)
             | Inr d' \<Rightarrow>
                 (let finalStatus =
                    (if result gameResult = ''win'' \<and> js_gt (payoutSats gameResult) (Num 0)
                     then (case sendPayout cfg pubkey (payoutSats gameResult) gameId of
                             Inr info \<Rightarrow> ''sent''
                           | Inl err \<Rightarrow> ''failed'')
                     else payoutStatus gameRecord)
                  in
                  (\<lparr> status = 200,
                     body =
                       [(''game_id'', JStr gameId),
                        (''roll'', JNum (roll gameResult)),
                        (''target'', JNum tgt),
                        (''result'', JStr (result gameResult)),
                        (''bet_sats'', JNum bet),
                        (''multiplier'', JNum (multiplier gameResult)),
                        (''payout_sats'', JNum (payoutSats gameResult)),
                        (''payout_method'', JStr payoutMeth),
                        (''payout_status'', JStr finalStatus),
                        (''server_seed'', JStr (serverSeed gameResult)),
                        (''server_seed_hash'', JStr (serverSeedHash gameResult)),
                        (''client_entropy'', JStr (clientEntropy gameResult)),
                        (''verify_url'', JStr (''/verify/'' @ gameId))] \<rparr>, d')))))"

text \<open>The fields of a verification, as they are spread into the body of \<open>/verify\<close>.\<close>

definition verification_fields :: "verification \<Rightarrow> (string \<times> json) list" where
  "verification_fields v =
     (case v of
        Unverified why \<Rightarrow> [(''verified'', JBool False), (''reason'', JStr why)]
      | Verified seed seedHash entropy computed tgt res \<Rightarrow>
          [(''verified'', JBool True),
           (''serverSeed'', JStr seed),
           (''serverSeedHash'', JStr seedHash),
           (''clientEntropy'', JStr entropy),
           (''computedRoll'', JNum computed),
           (''target'', JNum tgt),
           (''result'', JStr res)])"

definition verify_row :: "crypto \<Rightarrow> game_row \<Rightarrow> verification" where
  "verify_row cr game =
     verifyGame cr (server_seed game) (server_seed_hash game) (client_entropy game)
       (row_roll game) (row_target game)"

definition verify_handler :: "crypto \<Rightarrow> db \<Rightarrow> string \<Rightarrow> response" where
  "verify_handler cr d gameId =
     (case getGame d gameId of
        None \<Rightarrow> error_response 404 ''not_found''
      | Some game \<Rightarrow>
          \<lparr> status = 200,
            body =
              [(''game_id'', JStr gameId)] @ verification_fields (verify_row cr game) @
              [(''bet_sats'', JNum (bet_sats game)),
               (''payout_sats'', JNum (payout_sats game)),
               (''multiplier'', JNum (row_multiplier game)),
               (''created_at'', JStr (created_at game))] \<rparr>)"

section \<open>Auxiliary definitions\<close>

text \<open>
  Relative closeness of two positive rationals: each is within the factor
  \<open>(1 + 2\<^sup>-\<^sup>5\<^sup>2)\<^sup>k\<close> of the other. One rounding to a double gives \<open>close 1\<close>.
\<close>

definition rel_eps :: rat where
  "rel_eps = 1 / 2 ^ 52"

definition close :: "nat \<Rightarrow> rat \<Rightarrow> rat \<Rightarrow> bool" where
  "close k v t =
     (0 < v \<and> 0 < t \<and> v \<le> t * (1 + rel_eps) ^ k \<and> t \<le> v * (1 + rel_eps) ^ k)"

text \<open>The double \<open>1 - 0.015\<close> computed by the default configuration.\<close>

definition one_minus_edge :: rat where
  "one_minus_edge = 8872091265919877 / 9007199254740992"

text \<open>
  Stand-ins for the platform's hash functions and for the values drawn at run time, used
  to evaluate the model on concrete requests: the identity as hash, and an HMAC whose
  digest is all zero, so that every roll is 0.
\<close>

definition example_crypto :: crypto where
  "example_crypto = \<lparr> sha256_hex = (\<lambda>s. s), hmac_sha256 = (\<lambda>k m. 0) \<rparr>"

definition example_env :: env where
  "example_env =
     \<lparr> new_serverSeed = ''seed'', new_devEntropy = ''entropy'',
       new_gameId = ''g_00000000'', now = ''2024-01-01 00:00:00'' \<rparr>"

definition example_request :: request where
  "example_request =
     \<lparr> q_target = None, q_bet = None, q_payout = None, q_pubkey = None,
       h_authorization = None, h_x_player_pubkey = None \<rparr>"

text \<open>
  The row that a default wager stores under these stand-ins, and the body of the
  response to it, up to the entropy and the payout status.
\<close>

definition example_row :: game_row where
  "example_row =
     \<lparr> row_id = ''g_00000000'', row_roll = Num 0, row_target = Num 32768,
       row_result = ''win'', bet_sats = Num 100,
       row_multiplier = Num (8872091265919877 / 4503599627370496),
       payout_sats = Num 197, payout_method = ''keysend'', payout_status = ''pending'',
       server_seed = ''seed'', server_seed_hash = ''seed'', client_entropy = ''entropy'',
       player_pubkey = None, created_at = ''2024-01-01 00:00:00'' \<rparr>"

definition example_body :: "string \<Rightarrow> string \<Rightarrow> (string \<times> json) list" where
  "example_body entropy payStatus =
     [(''game_id'', JStr ''g_00000000''), (''roll'', JNum (Num 0)),
      (''target'', JNum (Num 32768)), (''result'', JStr ''win''),
      (''bet_sats'', JNum (Num 100)),
      (''multiplier'', JNum (Num (8872091265919877 / 4503599627370496))),
      (''payout_sats'', JNum (Num 197)), (''payout_method'', JStr ''keysend''),
      (''payout_status'', JStr payStatus), (''server_seed'', JStr ''seed''),
      (''server_seed_hash'', JStr ''seed''), (''client_entropy'', JStr entropy),
      (''verify_url'', JStr ''/verify/g_00000000'')]"

text \<open>The ledger after one default wager on the empty ledger.\<close>

definition example_ledger :: db where
  "example_ledger =
     snd (roll_handler default_config example_crypto example_env example_request [])"
























section \<open>Rounding to a double\<close>

lemma bitlen_nonneg: "0 \<le> bitlen n"
  by (induction n rule: bitlen.induct) (subst bitlen.simps, simp)

lemma bitlen_pos: "0 < n \<Longrightarrow> 0 < bitlen n"
  using bitlen_nonneg [of "n div 2"] by (subst bitlen.simps) simp

lemma bitlen_bounds:
  "0 < n \<Longrightarrow> 2 ^ nat (bitlen n - 1) \<le> n \<and> n < 2 ^ nat (bitlen n)"
proof (induction n rule: bitlen.induct)
  case (1 n)
  from "1.prems" have nz: "\<not> n \<le> 0" by simp
  have bl: "bitlen n = 1 + bitlen (n div 2)"
    using nz by (subst bitlen.simps) simp
  show ?case
  proof (cases "n div 2 = 0")
    case True
    with "1.prems" have n1: "n = 1" by presburger
    have "bitlen 0 = 0" by (subst bitlen.simps) simp
    then have "bitlen n = 1" using bl True by simp
    with n1 show ?thesis by simp
  next
    case False
    with "1.prems" have pos: "0 < n div 2" by presburger
    from "1.IH" [OF nz pos]
    have lo: "2 ^ nat (bitlen (n div 2) - 1) \<le> n div 2"
      and hi: "n div 2 < 2 ^ nat (bitlen (n div 2))" by simp_all
    define k where "k = nat (bitlen (n div 2) - 1)"
    from bitlen_pos [OF pos] have k: "bitlen (n div 2) = 1 + int k"
      by (simp add: k_def)
    have nk: "nat (1 + int k) = Suc k" by simp
    from lo k have "2 * 2 ^ k \<le> 2 * (n div 2)" by simp
    also have "\<dots> \<le> n" by presburger
    finally have a: "2 ^ nat (bitlen n - 1) \<le> n" by (simp add: bl k nk del: nat_int_add)
    from hi k have "n div 2 + 1 \<le> 2 * 2 ^ k" by (simp add: nk)
    then have "2 * (n div 2 + 1) \<le> 2 * (2 * 2 ^ k)" by simp
    moreover have "n < 2 * (n div 2 + 1)" by presburger
    have "nat (1 + (1 + int k)) = Suc (Suc k)" by simp
    with calculation have b: "n < 2 ^ nat (bitlen n)" by (simp add: bl k)
    from a b show ?thesis ..
  qed
qed

lemma of_int_pow2_le: "(2::int) ^ k \<le> n \<Longrightarrow> (2::rat) ^ k \<le> of_int n"
proof -
  assume "(2::int) ^ k \<le> n"
  then have "rat_of_int (2 ^ k) \<le> of_int n" by (simp only: of_int_le_iff)
  then show ?thesis by simp
qed

lemma ilog2_bounds:
  assumes "0 < x"
  shows "2 powi (ilog2 x) \<le> x" and "x < 2 powi (ilog2 x + 1)"
proof -
  show "2 powi (ilog2 x) \<le> x"
  proof (cases "1 \<le> x")
    case True
    define n where "n = \<lfloor>x\<rfloor>"
    from True have npos: "0 < n" by (simp add: n_def)
    have nle: "of_int n \<le> x" by (simp add: n_def)
    from bitlen_bounds [OF npos] have "2 ^ nat (bitlen n - 1) \<le> n" by simp
    then have "(2::rat) ^ nat (bitlen n - 1) \<le> of_int n" by (rule of_int_pow2_le)
    moreover have "0 \<le> bitlen n - 1" using bitlen_pos [OF npos] by simp
    then have "(2::rat) powi (bitlen n - 1) = 2 ^ nat (bitlen n - 1)"
      by (simp add: power_int_def)
    moreover have "ilog2 x = bitlen n - 1"
      using True by (simp add: ilog2_def n_def)
    ultimately have "2 powi (ilog2 x) \<le> rat_of_int n" by simp
    then show ?thesis using nle by (rule order_trans)
  next
    case False
    define m where "m = \<lceil>1 / x\<rceil> - 1"
    from False assms have big: "1 < 1 / x" by (simp add: field_simps)
    then have c2: "2 \<le> \<lceil>1 / x\<rceil>" by (simp add: le_ceiling_iff)
    then have mpos: "0 < m" unfolding m_def by linarith
    have "1 / x \<le> of_int \<lceil>1 / x\<rceil>" by (rule le_of_int_ceiling)
    also have "of_int \<lceil>1 / x\<rceil> = rat_of_int (m + 1)"
      unfolding m_def by simp
    finally have ub: "1 / x \<le> rat_of_int (m + 1)" .
    from bitlen_bounds [OF mpos] have "m + 1 \<le> 2 ^ nat (bitlen m)" by simp
    then have "rat_of_int (m + 1) \<le> of_int (2 ^ nat (bitlen m))"
      by (simp only: of_int_le_iff)
    then have "rat_of_int (m + 1) \<le> 2 ^ nat (bitlen m)" by simp
    with ub have "1 / x \<le> 2 ^ nat (bitlen m)" by (rule order_trans)
    then have "1 \<le> 2 ^ nat (bitlen m) * x" using assms by (simp add: field_simps)
    then have "1 / 2 ^ nat (bitlen m) \<le> x" by (simp add: field_simps)
    moreover have "ilog2 x = - bitlen m"
      using False by (simp add: ilog2_def m_def)
    moreover have "(2::rat) powi (- bitlen m) = 1 / 2 ^ nat (bitlen m)"
      using bitlen_nonneg [of m]
      by (simp add: power_int_minus inverse_eq_divide power_int_def power_one_over)
    ultimately show ?thesis by simp
  qed
  show "x < 2 powi (ilog2 x + 1)"
  proof (cases "1 \<le> x")
    case True
    define n where "n = \<lfloor>x\<rfloor>"
    from True have npos: "0 < n" by (simp add: n_def)
    have xlt: "x < rat_of_int (n + 1)"
      unfolding n_def by (rule floor_correct [THEN conjunct2])
    from bitlen_bounds [OF npos] have "n + 1 \<le> 2 ^ nat (bitlen n)" by simp
    then have "rat_of_int (n + 1) \<le> of_int (2 ^ nat (bitlen n))"
      by (simp only: of_int_le_iff)
    then have "rat_of_int (n + 1) \<le> 2 ^ nat (bitlen n)" by simp
    with xlt have "x < 2 ^ nat (bitlen n)" by (rule less_le_trans)
    moreover have "ilog2 x + 1 = bitlen n"
      using True by (simp add: ilog2_def n_def)
    moreover have "(2::rat) powi (bitlen n) = 2 ^ nat (bitlen n)"
      using bitlen_nonneg [of n] by (simp add: power_int_def)
    ultimately show ?thesis by simp
  next
    case False
    define m where "m = \<lceil>1 / x\<rceil> - 1"
    from False assms have big: "1 < 1 / x" by (simp add: field_simps)
    then have c2: "2 \<le> \<lceil>1 / x\<rceil>" by (simp add: le_ceiling_iff)
    then have mpos: "0 < m" unfolding m_def by linarith
    have "of_int \<lceil>1 / x\<rceil> - 1 < 1 / x"
      using ceiling_correct [of "1 / x"] by simp
    then have lb: "rat_of_int m < 1 / x" by (simp add: m_def)
    from bitlen_bounds [OF mpos] have "2 ^ nat (bitlen m - 1) \<le> m" by simp
    then have "(2::rat) ^ nat (bitlen m - 1) \<le> of_int m" by (rule of_int_pow2_le)
    then have "(2::rat) ^ nat (bitlen m - 1) < 1 / x" using lb by (rule le_less_trans)
    then have "x * 2 ^ nat (bitlen m - 1) < 1" using assms by (simp add: field_simps)
    then have "x < 1 / 2 ^ nat (bitlen m - 1)" by (simp add: field_simps)
    moreover have "ilog2 x + 1 = - (bitlen m - 1)"
      using False by (simp add: ilog2_def m_def)
    moreover have "(2::rat) powi (- (bitlen m - 1)) = 1 / 2 ^ nat (bitlen m - 1)"
      using bitlen_pos [OF mpos]
      by (simp only: power_int_minus inverse_eq_divide) (simp add: power_int_def)
    ultimately show ?thesis by simp
  qed
qed

lemma ilog2_ge_iff:
  assumes "0 < x"
  shows "(k \<le> ilog2 x) = (2 powi k \<le> x)"
proof
  assume "k \<le> ilog2 x"
  then have "(2::rat) powi k \<le> 2 powi ilog2 x"
    by (intro power_int_increasing) simp_all
  also have "\<dots> \<le> x" by (rule ilog2_bounds(1) [OF assms])
  finally show "2 powi k \<le> x" .
next
  assume a: "2 powi k \<le> x"
  show "k \<le> ilog2 x"
  proof (rule ccontr)
    assume "\<not> k \<le> ilog2 x"
    then have "ilog2 x + 1 \<le> k" by simp
    then have "(2::rat) powi (ilog2 x + 1) \<le> 2 powi k"
      by (intro power_int_increasing) simp_all
    with ilog2_bounds(2) [OF assms] have "x < 2 powi k" by (rule less_le_trans)
    with a show False by simp
  qed
qed

lemma overflow_split:
  fixes B r :: rat
  assumes "0 < B" and "r \<noteq> 0 \<Longrightarrow> c = (B \<le> \<bar>r\<bar>)"
  shows "(if B \<le> r then PosInf else if r \<le> - B then NegInf else Num r) =
         (if r = 0 then Num 0
          else if c then (if 0 < r then PosInf else NegInf)
          else Num r)"
proof (cases "r = 0")
  case True
  then show ?thesis using assms(1) by simp
next
  case False
  from assms(2) [OF False] have c: "c = (B \<le> \<bar>r\<bar>)" .
  show ?thesis unfolding c using False assms(1) by (auto simp: abs_if)
qed

lemma to_double_code [code]:
  "to_double x =
     (let r = round_double x in
      if r = 0 then Num 0
      else if 1024 \<le> ilog2 \<bar>r\<bar> then (if 0 < r then PosInf else NegInf)
      else Num r)"
  unfolding to_double_def Let_def
proof (rule overflow_split)
  show "(0::rat) < 2 ^ 1024" by (rule zero_less_power) simp
next
  assume "round_double x \<noteq> 0"
  then have "0 < \<bar>round_double x\<bar>" by simp
  from ilog2_ge_iff [OF this, of 1024]
  show "(1024 \<le> ilog2 \<bar>round_double x\<bar>) = (2 ^ 1024 \<le> \<bar>round_double x\<bar>)"
    by (simp only: power_int_numeral)
qed

lemma round_half_even_err: "\<bar>of_int (round_half_even q) - q\<bar> \<le> 1 / 2"
proof -
  have "of_int \<lfloor>q\<rfloor> \<le> q" "q < of_int \<lfloor>q\<rfloor> + 1" by linarith+
  then show ?thesis
    by (auto simp: round_half_even_def Let_def abs_le_iff)
qed


lemma round_double_err:
  assumes "2 powi (- 1022) \<le> \<bar>x\<bar>"
  shows "\<bar>round_double x - x\<bar> \<le> \<bar>x\<bar> / 2 ^ 53"
proof -
  have "(0::rat) < 2 powi (- 1022)" by simp
  then have xpos: "0 < \<bar>x\<bar>" using assms by (rule less_le_trans)
  then have xnz: "x \<noteq> 0" by simp
  define e where "e = ilog2 \<bar>x\<bar>"
  from ilog2_ge_iff [OF xpos, of "- 1022"] assms have e_lo: "- 1022 \<le> e"
    by (simp add: e_def)
  define u where "u = (2::rat) powi (e - 52)"
  have u_ulp: "ulp x = u"
    using e_lo by (simp add: ulp_def u_def e_def max_def)
  have upos: "0 < u" by (simp add: u_def)
  have "u = 2 powi e / 2 ^ 52"
    by (simp add: u_def power_int_diff)
  moreover have "2 powi e \<le> \<bar>x\<bar>"
    unfolding e_def by (rule ilog2_bounds(1) [OF xpos])
  ultimately have u_le: "u \<le> \<bar>x\<bar> / 2 ^ 52"
    by (simp add: divide_right_mono)
  define n where "n = round_half_even (x / u)"
  have rd: "round_double x = of_int n * u"
    using xnz by (simp add: round_double_def u_ulp n_def)
  have "round_double x - x = (of_int n - x / u) * u"
    using upos by (simp add: rd field_simps)
  then have "\<bar>round_double x - x\<bar> = \<bar>of_int n - x / u\<bar> * u"
    using upos by (simp add: abs_mult)
  also have "\<dots> \<le> (1 / 2) * u"
    using round_half_even_err [of "x / u"] upos
    unfolding n_def by (intro mult_right_mono) simp_all
  also have "\<dots> \<le> (1 / 2) * (\<bar>x\<bar> / 2 ^ 52)"
    using u_le by (intro mult_left_mono) simp_all
  also have "\<dots> = \<bar>x\<bar> / 2 ^ 53" by simp
  finally show ?thesis .
qed

lemma rel_eps_pos: "0 < rel_eps"
  by (simp add: rel_eps_def)

lemma close_refl: "0 < t \<Longrightarrow> close 0 t t"
  by (simp add: close_def)

lemma close_trans:
  assumes "close j v w" and "close k w t"
  shows "close (j + k) v t"
proof -
  define E where "E = 1 + rel_eps"
  have Epos: "0 < E" using rel_eps_pos by (simp add: E_def)
  from assms have pos: "0 < v" "0 < w" "0 < t"
    and a: "v \<le> w * E ^ j" "w \<le> v * E ^ j"
    and b: "w \<le> t * E ^ k" "t \<le> w * E ^ k"
    by (simp_all add: close_def E_def)
  have "v \<le> w * E ^ j" by (rule a)
  also have "\<dots> \<le> (t * E ^ k) * E ^ j"
    using b(1) Epos by (intro mult_right_mono) simp_all
  finally have 1: "v \<le> t * E ^ (j + k)" by (simp add: power_add mult_ac)
  have "t \<le> w * E ^ k" by (rule b)
  also have "\<dots> \<le> (v * E ^ j) * E ^ k"
    using a(2) Epos by (intro mult_right_mono) simp_all
  finally have 2: "t \<le> v * E ^ (j + k)" by (simp add: power_add mult_ac)
  from pos 1 2 show ?thesis by (simp add: close_def E_def)
qed

lemma close_mult:
  assumes "close j a a'" and "close k b b'"
  shows "close (j + k) (a * b) (a' * b')"
proof -
  define E where "E = 1 + rel_eps"
  have Epos: "0 < E" using rel_eps_pos by (simp add: E_def)
  from assms have pos: "0 < a" "0 < a'" "0 < b" "0 < b'"
    and a: "a \<le> a' * E ^ j" "a' \<le> a * E ^ j"
    and b: "b \<le> b' * E ^ k" "b' \<le> b * E ^ k"
    by (simp_all add: close_def E_def)
  have "a * b \<le> (a' * E ^ j) * (b' * E ^ k)"
    using a(1) b(1) pos by (intro mult_mono) simp_all
  then have 1: "a * b \<le> (a' * b') * E ^ (j + k)" by (simp add: power_add mult_ac)
  have "a' * b' \<le> (a * E ^ j) * (b * E ^ k)"
    using a(2) b(2) pos by (intro mult_mono) simp_all
  then have 2: "a' * b' \<le> (a * b) * E ^ (j + k)" by (simp add: power_add mult_ac)
  from pos 1 2 show ?thesis by (simp add: close_def E_def)
qed

lemma close_inverse:
  assumes "close k b b'"
  shows "close k (1 / b) (1 / b')"
proof -
  define E where "E = 1 + rel_eps"
  have Epos: "0 < E ^ k" using rel_eps_pos by (simp add: E_def)
  from assms have pos: "0 < b" "0 < b'"
    and b: "b \<le> b' * E ^ k" "b' \<le> b * E ^ k"
    by (simp_all add: close_def E_def)
  from b(2) pos Epos have 1: "1 / b \<le> (1 / b') * E ^ k"
    by (simp add: field_simps)
  from b(1) pos Epos have 2: "1 / b' \<le> (1 / b) * E ^ k"
    by (simp add: field_simps)
  from pos 1 2 show ?thesis by (simp add: close_def E_def)
qed

lemma close_round:
  assumes "0 < x" and "2 powi (- 1022) \<le> x"
  shows "close 1 (round_double x) x"
proof -
  from assms have "2 powi (- 1022) \<le> \<bar>x\<bar>" by simp
  from round_double_err [OF this] assms(1)
  have err: "\<bar>round_double x - x\<bar> \<le> x / 2 ^ 53" by simp
  define d where "d = x / 2 ^ 53"
  from err have "\<bar>round_double x - x\<bar> \<le> d" by (simp only: d_def)
  then have "x - d \<le> round_double x" and "round_double x \<le> x + d" by linarith+
  then have lo: "x - x / 2 ^ 53 \<le> round_double x"
    and hi: "round_double x \<le> x + x / 2 ^ 53" by (simp_all only: d_def)
  have "0 < x - x / 2 ^ 53" using assms(1) by (simp add: field_simps)
  then have rpos: "0 < round_double x" using lo by (rule less_le_trans)
  have "x / 2 ^ 53 \<le> x / 2 ^ 52" using assms(1) by (simp add: field_simps)
  with hi have 1: "round_double x \<le> x * (1 + rel_eps) ^ 1"
    by (simp add: rel_eps_def field_simps)
  have "x \<le> (x - x / 2 ^ 53) * (1 + 1 / 2 ^ 52)"
    using assms(1) by (simp add: field_simps)
  also have "\<dots> \<le> round_double x * (1 + 1 / 2 ^ 52)"
    using lo by (intro mult_right_mono) simp_all
  finally have 2: "x \<le> round_double x * (1 + rel_eps) ^ 1"
    by (simp add: rel_eps_def)
  from rpos assms(1) 1 2 show ?thesis by (simp only: close_def)
qed

lemma rel_eps_pow4: "(1 + rel_eps) ^ 4 \<le> 2"
  by code_simp

lemma close_range:
  assumes "close k v t" and "k \<le> 4"
  shows "t / 2 \<le> v" and "v \<le> 2 * t"
proof -
  define E where "E = 1 + rel_eps"
  have E1: "1 \<le> E" using rel_eps_pos by (simp add: E_def)
  have "E ^ k \<le> E ^ 4" using assms(2) E1 by (rule power_increasing)
  also have "E ^ 4 \<le> 2" unfolding E_def by (rule rel_eps_pow4)
  finally have Ek: "E ^ k \<le> 2" .
  from assms(1) have pos: "0 < v" "0 < t"
    and a: "v \<le> t * E ^ k" "t \<le> v * E ^ k"
    by (simp_all add: close_def E_def)
  have "t * E ^ k \<le> t * 2" using Ek pos by (intro mult_left_mono) simp_all
  with a(1) show "v \<le> 2 * t" by simp
  have "v * E ^ k \<le> v * 2" using Ek pos by (intro mult_left_mono) simp_all
  with a(2) show "t / 2 \<le> v" by simp
qed

lemma to_double_close:
  assumes "1 / 2 ^ 64 \<le> x" and "x \<le> 2 ^ 64"
  shows "\<exists>r. to_double x = Num r \<and> close 1 r x"
proof -
  have "(2::rat) powi (- 1022) \<le> 1 / 2 ^ 64"
    by (simp add: power_int_minus inverse_eq_divide field_simps)
  then have tiny: "2 powi (- 1022) \<le> x" using assms(1) by (rule order_trans)
  have "(0::rat) < 1 / 2 ^ 64" by simp
  then have xpos: "0 < x" using assms(1) by (rule less_le_trans)
  from close_round [OF xpos tiny] have c: "close 1 (round_double x) x" .
  from close_range [OF c] have "round_double x \<le> 2 * x" by simp
  also have "\<dots> \<le> 2 * 2 ^ 64" using assms(2) by simp
  also have "\<dots> < (2::rat) ^ 1024" by simp
  finally have hi: "\<not> 2 ^ 1024 \<le> round_double x" by simp
  from c have "0 < round_double x" by (simp add: close_def)
  moreover have "- ((2::rat) ^ 1024) < 0" by simp
  ultimately have lo: "\<not> round_double x \<le> - (2 ^ 1024)" by linarith
  from hi lo have "to_double x = Num (round_double x)"
    by (simp add: to_double_def Let_def)
  with c show ?thesis by blast
qed

lemma one_plus_edge_default:
  "js_add (maxRoll default_config) (Num 1) = Num 65536"
  by code_simp

lemma one_minus_edge_default:
  "js_sub (Num 1) (houseEdge default_config) = Num one_minus_edge"
  by code_simp

lemma getMultiplier_default:
  "getMultiplier default_config tgt =
     js_mul (js_div (Num 1) (js_div tgt (Num 65536))) (Num one_minus_edge)"
  by (simp add: getMultiplier_def one_plus_edge_default one_minus_edge_default)

lemma getMultiplier_close:
  assumes "1 \<le> t" and "t \<le> 65535"
  shows "\<exists>m. getMultiplier default_config (Num (of_int t)) = Num m
           \<and> close 3 m (65536 / of_int t * one_minus_edge)"
proof -
  define x :: rat where "x = of_int t / 65536"
  from assms have t1: "(1::rat) \<le> of_int t" and t2: "rat_of_int t \<le> 65535"
    by simp_all
  have xlo: "1 / 65536 \<le> x" using t1 by (simp add: x_def)
  have xhi: "x \<le> 1" using t2 by (simp add: x_def)
  have xpos: "0 < x" using xlo by simp
  have "1 / 2 ^ 64 \<le> x" using xlo by simp
  moreover have "x \<le> 2 ^ 64" using xhi by simp
  ultimately obtain a where a: "to_double x = Num a" and ca: "close 1 a x"
    using to_double_close by blast
  have apos: "0 < a" using ca by (simp add: close_def)
  have wp: "js_div (Num (of_int t)) (Num 65536) = Num a"
    using a by (simp add: x_def)
  from close_inverse [OF ca] have cia: "close 1 (1 / a) (1 / x)" .
  from close_range [OF ca] have "x / 2 \<le> a" "a \<le> 2 * x" by simp_all
  with xlo xhi have alo: "1 / 131072 \<le> a" and ahi: "a \<le> 2" by simp_all
  have "1 / 2 \<le> 1 / a" using ahi apos by (simp add: field_simps)
  then have "1 / 2 ^ 64 \<le> 1 / a" by simp
  moreover have "1 / a \<le> 131072" using alo apos by (simp add: field_simps)
  then have "1 / a \<le> 2 ^ 64" by simp
  ultimately obtain b where b: "to_double (1 / a) = Num b" and cb: "close 1 b (1 / a)"
    using to_double_close by blast
  have fm: "js_div (Num 1) (Num a) = Num b"
    using b apos by simp
  from close_trans [OF cb cia] have cbx: "close 2 b (1 / x)" by (simp add: numeral_2_eq_2)
  have cpos: "0 < one_minus_edge" by (simp add: one_minus_edge_def)
  from close_mult [OF cbx close_refl [OF cpos]]
  have cbc: "close 2 (b * one_minus_edge) (1 / x * one_minus_edge)" by simp
  have Tlo: "1 / 2 \<le> 1 / x * one_minus_edge"
  proof -
    have "1 / 2 \<le> 1 * one_minus_edge" by (simp add: one_minus_edge_def)
    also have "\<dots> \<le> 1 / x * one_minus_edge"
      using xhi xpos cpos by (intro mult_right_mono) (simp_all add: field_simps)
    finally show ?thesis .
  qed
  have Thi: "1 / x * one_minus_edge \<le> 65536"
  proof -
    have "1 / x \<le> 65536" using xlo xpos by (simp add: field_simps)
    then have "1 / x * one_minus_edge \<le> 65536 * 1"
      using cpos by (intro mult_mono) (simp_all add: one_minus_edge_def)
    then show ?thesis by simp
  qed
  define T where "T = 1 / x * one_minus_edge"
  define P where "P = b * one_minus_edge"
  from close_range [OF cbc] have "T / 2 \<le> P" and "P \<le> 2 * T"
    by (simp_all add: T_def P_def)
  moreover from Tlo Thi have "1 / 2 \<le> T" and "T \<le> 65536"
    by (simp_all add: T_def)
  ultimately have "1 / 4 \<le> P" and "P \<le> 131072" by linarith+
  then have "1 / 4 \<le> b * one_minus_edge" and "b * one_minus_edge \<le> 131072"
    by (simp_all add: P_def)
  then have "1 / 2 ^ 64 \<le> b * one_minus_edge" and "b * one_minus_edge \<le> 2 ^ 64"
    by simp_all
  then obtain m where m: "to_double (b * one_minus_edge) = Num m"
    and cm: "close 1 m (b * one_minus_edge)"
    using to_double_close by blast
  from close_trans [OF cm cbc] have "close 3 m (1 / x * one_minus_edge)"
    by (simp add: numeral_2_eq_2 numeral_3_eq_3)
  moreover have "1 / x = 65536 / of_int t" by (simp add: x_def)
  ultimately have "close 3 m (65536 / of_int t * one_minus_edge)" by simp
  moreover have "getMultiplier default_config (Num (of_int t)) = Num m"
    by (simp only: getMultiplier_default wp fm js_mul.simps m)
  ultimately show ?thesis by blast
qed

lemma spec_bound_numeric:
  "65536 * ((1 + rel_eps) ^ 3 * ((1 + rel_eps) ^ 3 - 1))
     + 65536 * \<bar>one_minus_edge - 197 / 200\<bar> \<le> 1 / 10 ^ 10"
  by code_simp

lemma close_abs_bound:
  assumes "close k m T" and "T \<le> B"
  shows "\<bar>m - T\<bar> \<le> B * ((1 + rel_eps) ^ k * ((1 + rel_eps) ^ k - 1))"
proof -
  define E where "E = (1 + rel_eps) ^ k"
  have E1: "1 \<le> E" using rel_eps_pos by (simp add: E_def)
  from assms(1) have pos: "0 < m" "0 < T" and a: "m \<le> T * E" and b: "T \<le> m * E"
    by (simp_all add: close_def E_def)
  have Bpos: "0 < B" using pos(2) assms(2) by simp
  have "T * (E - 1) \<le> B * (E - 1)"
    using assms(2) E1 by (intro mult_right_mono) simp_all
  also have "\<dots> \<le> B * (E * (E - 1))"
  proof -
    have "1 * (E - 1) \<le> E * (E - 1)" using E1 by (intro mult_right_mono) simp_all
    then have "B * (1 * (E - 1)) \<le> B * (E * (E - 1))"
      using Bpos by (intro mult_left_mono) simp_all
    then show ?thesis by simp
  qed
  finally have 1: "T * (E - 1) \<le> B * (E * (E - 1))" .
  have "m * (E - 1) \<le> (T * E) * (E - 1)"
    using a E1 by (intro mult_right_mono) simp_all
  also have "\<dots> \<le> (B * E) * (E - 1)"
    using assms(2) E1 by (intro mult_right_mono) simp_all
  finally have 2: "m * (E - 1) \<le> B * (E * (E - 1))" by (simp add: mult_ac)
  have "m - T \<le> T * (E - 1)" using a by (simp add: algebra_simps)
  with 1 have up: "m - T \<le> B * (E * (E - 1))" by linarith
  have "T - m \<le> m * (E - 1)" using b by (simp add: algebra_simps)
  with 2 have dn: "T - m \<le> B * (E * (E - 1))" by linarith
  from up dn show ?thesis unfolding E_def by (simp add: abs_le_iff)
qed


lemma js_ge_cases:
  assumes "js_ge x (Num c)"
  shows "x = PosInf \<or> (\<exists>s. x = Num s \<and> c \<le> s)"
  using assms by (cases x) (simp_all add: js_ge_def)

lemma to_double_pos_cases:
  assumes "1 \<le> x"
  shows "to_double x = PosInf \<or> (\<exists>r. to_double x = Num r \<and> x / 2 \<le> r)"
proof -
  have "(2::rat) powi (- 1022) \<le> 1"
    by (simp add: power_int_minus inverse_eq_divide field_simps)
  then have tiny: "2 powi (- 1022) \<le> x" using assms by (rule order_trans)
  have xpos: "0 < x" using assms by simp
  from close_round [OF xpos tiny] have c: "close 1 (round_double x) x" .
  from close_range [OF c] have half: "x / 2 \<le> round_double x" by simp
  from c have "0 < round_double x" by (simp add: close_def)
  moreover have "- ((2::rat) ^ 1024) < 0" by simp
  ultimately have lo: "\<not> round_double x \<le> - (2 ^ 1024)" by linarith
  show ?thesis
  proof (cases "2 ^ 1024 \<le> round_double x")
    case True
    then show ?thesis by (simp add: to_double_def Let_def)
  next
    case False
    with lo have "to_double x = Num (round_double x)"
      by (simp add: to_double_def Let_def)
    with half show ?thesis by blast
  qed
qed

lemma payout_nonzero:
  assumes "1 \<le> t" and "t \<le> 65535" and "js_ge bet (Num 10)"
  shows "js_floor (js_mul bet (getMultiplier default_config (Num (of_int t)))) \<noteq> Num 0"
proof -
  from getMultiplier_close [OF assms(1,2)] obtain m
    where m: "getMultiplier default_config (Num (of_int t)) = Num m"
      and c: "close 3 m (65536 / of_int t * one_minus_edge)" by blast
  from assms have t1: "(1::rat) \<le> of_int t" and t2: "rat_of_int t \<le> 65535" by simp_all
  have "1 \<le> 65536 / rat_of_int t" using t1 t2 by (simp add: field_simps)
  then have "1 * one_minus_edge \<le> 65536 / of_int t * one_minus_edge"
    by (intro mult_right_mono) (simp_all add: one_minus_edge_def)
  moreover have "49 / 50 \<le> one_minus_edge" by (simp add: one_minus_edge_def)
  ultimately have "49 / 50 \<le> 65536 / of_int t * one_minus_edge" by simp
  moreover define T where "T = 65536 / of_int t * one_minus_edge"
  ultimately have T: "49 / 50 \<le> T" by simp
  from close_range [OF c] have "T / 2 \<le> m" by (simp add: T_def)
  with T have mlo: "49 / 100 \<le> m" by linarith
  from js_ge_cases [OF assms(3)] show ?thesis
  proof
    assume "bet = PosInf"
    then show ?thesis using m mlo by simp
  next
    assume "\<exists>s. bet = Num s \<and> 10 \<le> s"
    then obtain s where s: "bet = Num s" and s10: "10 \<le> s" by blast
    have "10 * (49 / 100) \<le> s * m"
      using s10 mlo by (intro mult_mono) simp_all
    then have p: "49 / 10 \<le> s * m" by simp
    then have "1 \<le> s * m" by simp
    from to_double_pos_cases [OF this] show ?thesis
    proof
      assume "to_double (s * m) = PosInf"
      then show ?thesis by (simp add: s m)
    next
      assume "\<exists>r. to_double (s * m) = Num r \<and> s * m / 2 \<le> r"
      then obtain r where r: "to_double (s * m) = Num r" and rl: "s * m / 2 \<le> r" by blast
      from rl p have "2 \<le> r" by linarith
      then have "(2::int) \<le> \<lfloor>r\<rfloor>" by (subst le_floor_iff) simp
      then have "\<lfloor>r\<rfloor> \<noteq> 0" by arith
      then show ?thesis by (simp add: s m r)
    qed
  qed
qed

lemma generateRoll_Num: "\<exists>k. generateRoll cr seed entropy = Num k"
  by (simp add: generateRoll_def)

lemma readUInt16BE0_nonneg: "0 \<le> readUInt16BE0 d"
  by (simp add: readUInt16BE0_def)


section \<open>The examples, evaluated\<close>

lemma example_game_32768:
  "resolveGame default_config example_crypto (Num 32768) (Num 100) ''seed'' ''entropy'' =
     \<lparr> roll = Num 0, target = Num 32768, result = ''win'', betSats = Num 100,
       multiplier = Num (8872091265919877 / 4503599627370496), payoutSats = Num 197,
       serverSeed = ''seed'', serverSeedHash = ''seed'', clientEntropy = ''entropy'' \<rparr>"
  by code_simp


lemma example_game_0:
  "resolveGame default_config example_crypto (Num 0) (Num 100) ''seed'' ''entropy'' =
     \<lparr> roll = Num 0, target = Num 0, result = ''loss'', betSats = Num 100,
       multiplier = PosInf, payoutSats = Num 0,
       serverSeed = ''seed'', serverSeedHash = ''seed'', clientEntropy = ''entropy'' \<rparr>"
  by code_simp

lemma example_roll_default:
  "roll_handler default_config example_crypto example_env example_request [] =
     (\<lparr> status = 200, body = example_body ''entropy'' ''sent'' \<rparr>, [example_row])"
  by code_simp

lemma example_roll_bet_100:
  "roll_handler default_config example_crypto example_env
     (example_request\<lparr>q_bet := Some ''100''\<rparr>) [] =
     (\<lparr> status = 200, body = example_body ''entropy'' ''sent'' \<rparr>, [example_row])"
  by code_simp

lemma example_roll_production:
  "roll_handler (default_config\<lparr>devMode := False\<rparr>) example_crypto example_env
     (example_request\<lparr>h_authorization := Some ''L402 macaroon:preimage''\<rparr>) [] =
     (\<lparr> status = 200, body = example_body ''preimage'' ''failed'' \<rparr>,
      [example_row\<lparr>client_entropy := ''preimage''\<rparr>])"
  by code_simp

lemma example_ledger_eq: "example_ledger = [example_row]"
  by (simp add: example_ledger_def example_roll_default)

section \<open>The payout multiplier\<close>

text \<open>
  C7. With the roll range of 65536 values, \<open>getMultiplier\<close> is
  \<open>(1 / (threshold / 65536)) * (1 - houseEdge)\<close>, the division, the reciprocal, the
  subtraction and the product being those of double arithmetic. Under the default
  configuration (house edge 0.015) and for every threshold in \<open>[1, 65535]\<close> the result is
  a finite number that differs from the exact value of the specification's formula by
  at most \<open>10\<^sup>-\<^sup>1\<^sup>0\<close>; the multipliers of 32768, 16384 and 49152 are within 0.01 of
  1.970, 3.940 and 1.313.
\<close>

theorem getMultiplier_spec:
  assumes "maxRoll cfg = Num 65535" and "1 \<le> t" and "t \<le> 65535"
  shows "getMultiplier cfg tgt =
           js_mul (js_div (Num 1) (js_div tgt (Num 65536))) (js_sub (Num 1) (houseEdge cfg))
       \<and> (\<exists>m. getMultiplier default_config (Num (of_int t)) = Num m
              \<and> \<bar>m - spec_multiplier (15 / 1000) (of_int t)\<bar> \<le> 1 / 10 ^ 10)
       \<and> (\<exists>m. getMultiplier default_config (Num 32768) = Num m \<and> \<bar>m - 1970 / 1000\<bar> < 1 / 100)
       \<and> (\<exists>m. getMultiplier default_config (Num 16384) = Num m \<and> \<bar>m - 3940 / 1000\<bar> < 1 / 100)
       \<and> (\<exists>m. getMultiplier default_config (Num 49152) = Num m \<and> \<bar>m - 1313 / 1000\<bar> < 1 / 100)"
proof -
  have "js_add (Num 65535) (Num 1) = Num 65536" by code_simp
  then have formula: "getMultiplier cfg tgt =
      js_mul (js_div (Num 1) (js_div tgt (Num 65536))) (js_sub (Num 1) (houseEdge cfg))"
    by (simp add: getMultiplier_def assms(1))
  from getMultiplier_close [OF assms(2,3)] obtain m
    where m: "getMultiplier default_config (Num (of_int t)) = Num m"
      and c: "close 3 m (65536 / of_int t * one_minus_edge)" by blast
  define F :: rat where "F = 65536 / of_int t"
  define Tc where "Tc = F * one_minus_edge"
  define T where "T = F * (197 / 200)"
  from assms have t1: "(1::rat) \<le> of_int t" by simp
  then have Fpos: "0 < F" and Fle: "F \<le> 65536"
    by (simp_all add: F_def field_simps)
  have "Tc \<le> 65536 * 1"
    unfolding Tc_def using Fle Fpos
    by (intro mult_mono) (simp_all add: one_minus_edge_def)
  then have Tc_le: "Tc \<le> 65536" by simp
  from c have c': "close 3 m Tc" by (simp add: Tc_def F_def)
  from close_abs_bound [OF c' Tc_le]
  have 1: "\<bar>m - Tc\<bar> \<le> 65536 * ((1 + rel_eps) ^ 3 * ((1 + rel_eps) ^ 3 - 1))" .
  have "Tc - T = F * (one_minus_edge - 197 / 200)"
    by (simp only: Tc_def T_def right_diff_distrib)
  then have "\<bar>Tc - T\<bar> = F * \<bar>one_minus_edge - 197 / 200\<bar>"
    using Fpos by (simp only: abs_mult abs_of_pos)
  also have "\<dots> \<le> 65536 * \<bar>one_minus_edge - 197 / 200\<bar>"
    using Fle by (intro mult_right_mono) simp_all
  finally have 2: "\<bar>Tc - T\<bar> \<le> 65536 * \<bar>one_minus_edge - 197 / 200\<bar>" .
  have "\<bar>m - T\<bar> \<le> \<bar>m - Tc\<bar> + \<bar>Tc - T\<bar>" by simp
  with 1 2 spec_bound_numeric have "\<bar>m - T\<bar> \<le> 1 / 10 ^ 10" by linarith
  moreover have "spec_multiplier (15 / 1000) (of_int t) = T"
    using t1 by (simp add: spec_multiplier_def T_def F_def)
  ultimately have general: "\<exists>m. getMultiplier default_config (Num (of_int t)) = Num m
      \<and> \<bar>m - spec_multiplier (15 / 1000) (of_int t)\<bar> \<le> 1 / 10 ^ 10"
    using m by auto
  have v1: "getMultiplier default_config (Num 32768)
              = Num (8872091265919877 / 4503599627370496)"
    by code_simp
  have v2: "getMultiplier default_config (Num 16384)
              = Num (8872091265919877 / 2251799813685248)"
    by code_simp
  have v3: "getMultiplier default_config (Num 49152)
              = Num (5914727510613251 / 4503599627370496)"
    by code_simp
  have a1: "\<bar>8872091265919877 / 4503599627370496 - 1970 / 1000\<bar> < (1 / 100 :: rat)"
    by simp
  have a2: "\<bar>8872091265919877 / 2251799813685248 - 3940 / 1000\<bar> < (1 / 100 :: rat)"
    by simp
  have a3: "\<bar>5914727510613251 / 4503599627370496 - 1313 / 1000\<bar> < (1 / 100 :: rat)"
    by simp
  from formula general v1 v2 v3 a1 a2 a3 show ?thesis by blast
qed

theorem getMultiplier_spec_witness:
  "maxRoll default_config = Num 65535 \<and> (1::int) \<le> 1000 \<and> (1000::int) \<le> 65535
   \<and> getMultiplier default_config (Num 1000) =
        js_mul (js_div (Num 1) (js_div (Num 1000) (Num 65536)))
          (js_sub (Num 1) (houseEdge default_config))
   \<and> (\<exists>m. getMultiplier default_config (Num (of_int 1000)) = Num m
          \<and> \<bar>m - spec_multiplier (15 / 1000) (of_int 1000)\<bar> \<le> 1 / 10 ^ 10)"
proof -
  have h1: "maxRoll default_config = Num 65535" by (simp add: default_config_def)
  have h2: "(1::int) \<le> 1000" and h3: "(1000::int) \<le> 65535" by simp_all
  from getMultiplier_spec [OF h1 h2 h3, of "Num 1000"] h1 h2 h3 show ?thesis by blast
qed

section \<open>Game resolution\<close>

text \<open>
  C3. For every game resolved by \<open>resolveGame\<close> the result is \<open>win\<close> exactly when the
  roll is strictly below the target, and a result that is not \<open>win\<close> is \<open>loss\<close> with
  payout 0. Under the default configuration (house edge 0.015), for an integer threshold
  of at most 65535 (so for every threshold in \<open>[1, 65535]\<close>) and a stake of at least the
  minimum bet 10, the payout is nonzero exactly when the result is \<open>win\<close>.
\<close>

theorem resolveGame_win_iff_payout:
  "let g = resolveGame cfg cr tgt bet seed entropy in
     (result g = ''win'' \<longleftrightarrow> js_lt (roll g) (target g))
   \<and> (result g \<noteq> ''win'' \<longrightarrow> result g = ''loss'' \<and> payoutSats g = Num 0)
   \<and> (cfg = default_config \<and> tgt = Num (of_int t) \<and> t \<le> 65535 \<and> js_ge bet (Num 10)
        \<longrightarrow> (payoutSats g \<noteq> Num 0 \<longleftrightarrow> result g = ''win''))"
proof (cases "js_lt (generateRoll cr seed entropy) tgt")
  case True
  have "js_floor (js_mul bet (getMultiplier cfg tgt)) \<noteq> Num 0"
    if h: "cfg = default_config \<and> tgt = Num (of_int t) \<and> t \<le> 65535 \<and> js_ge bet (Num 10)"
  proof -
    define k where "k = readUInt16BE0 (hmac_sha256 cr seed entropy)"
    have k0: "0 \<le> k" unfolding k_def by (rule readUInt16BE0_nonneg)
    from True h have "rat_of_int k < rat_of_int t"
      by (simp add: generateRoll_def k_def)
    then have "k < t" by (simp only: of_int_less_iff)
    with k0 have t1: "1 \<le> t" by simp
    from h have t2: "t \<le> 65535" and b: "js_ge bet (Num 10)" by simp_all
    from payout_nonzero [OF t1 t2 b] h show ?thesis by simp
  qed
  with True show ?thesis by (simp add: resolveGame_def Let_def)
next
  case False
  then show ?thesis by (simp add: resolveGame_def Let_def)
qed

theorem resolveGame_win_iff_payout_witness:
  "(32768::int) \<le> 65535 \<and> js_ge (Num 100) (Num 10)
   \<and> result (resolveGame default_config example_crypto (Num 32768) (Num 100)
         ''seed'' ''entropy'') = ''win''
   \<and> payoutSats (resolveGame default_config example_crypto (Num 32768) (Num 100)
         ''seed'' ''entropy'') \<noteq> Num 0
   \<and> result (resolveGame default_config example_crypto (Num 0) (Num 100)
         ''seed'' ''entropy'') \<noteq> ''win''
   \<and> payoutSats (resolveGame default_config example_crypto (Num 0) (Num 100)
         ''seed'' ''entropy'') = Num 0"
proof -
  have h: "default_config = default_config \<and> Num 32768 = Num (of_int 32768)
      \<and> (32768::int) \<le> 65535 \<and> js_ge (Num 100) (Num 10)"
    by (simp add: js_ge_def)
  have w: "result (resolveGame default_config example_crypto (Num 32768) (Num 100)
         ''seed'' ''entropy'') = ''win''"
    by (simp add: example_game_32768)
  have l: "result (resolveGame default_config example_crypto (Num 0) (Num 100)
         ''seed'' ''entropy'') \<noteq> ''win''"
    by (simp add: example_game_0)
  from resolveGame_win_iff_payout [of default_config example_crypto "Num 32768" "Num 100"
      "''seed''" "''entropy''" 32768] h w
  have 1: "payoutSats (resolveGame default_config example_crypto (Num 32768) (Num 100)
         ''seed'' ''entropy'') \<noteq> Num 0"
    unfolding Let_def by blast
  from resolveGame_win_iff_payout [of default_config example_crypto "Num 0" "Num 100"
      "''seed''" "''entropy''" 0] l
  have 2: "payoutSats (resolveGame default_config example_crypto (Num 0) (Num 100)
         ''seed'' ''entropy'') = Num 0"
    unfolding Let_def by blast
  from h w l 1 2 show ?thesis by blast
qed




section \<open>Verification\<close>

lemma js_strict_eq_Num: "js_strict_eq (Num a) y \<longleftrightarrow> y = Num a"
  by (auto simp: js_strict_eq_def)

text \<open>
  C5, as stated, fails on the reason strings: a commitment mismatch is reported as
  \<open>Server seed does not match committed hash\<close> and an outcome mismatch as
  \<open>Roll does not match HMAC computation\<close>, not as \<open>seed/hash mismatch\<close> and
  \<open>outcome mismatch\<close>.
\<close>

theorem verify_reason_counterexample:
  "verifyGame example_crypto ''seed'' ''not the hash'' ''entropy'' (Num 0) (Num 32768)
     = Unverified ''Server seed does not match committed hash''
   \<and> ''Server seed does not match committed hash'' \<noteq> ''seed/hash mismatch''
   \<and> verifyGame example_crypto ''seed'' ''seed'' ''entropy'' (Num 1) (Num 32768)
     = Unverified ''Roll does not match HMAC computation''
   \<and> ''Roll does not match HMAC computation'' \<noteq> ''outcome mismatch''"
  by code_simp

text \<open>
  C5, amended. \<open>verifyGame\<close> checks in order and stops at the first failure: a
  commitment mismatch yields \<open>verified = false\<close> with the reason
  \<open>Server seed does not match committed hash\<close>, whatever the roll; otherwise an outcome
  mismatch yields \<open>verified = false\<close> with the reason
  \<open>Roll does not match HMAC computation\<close>; if both match, the result is
  \<open>verified = true\<close> with the result recomputed from the roll and the target.
\<close>

theorem verifyGame_steps:
  "(commitSeed cr seed \<noteq> seedHash \<longrightarrow>
      verifyGame cr seed seedHash entropy r tgt
        = Unverified ''Server seed does not match committed hash'')
   \<and> (commitSeed cr seed = seedHash \<and> \<not> js_strict_eq (generateRoll cr seed entropy) r \<longrightarrow>
      verifyGame cr seed seedHash entropy r tgt
        = Unverified ''Roll does not match HMAC computation'')
   \<and> (commitSeed cr seed = seedHash \<and> js_strict_eq (generateRoll cr seed entropy) r \<longrightarrow>
      verifyGame cr seed seedHash entropy r tgt
        = Verified seed seedHash entropy (generateRoll cr seed entropy) tgt
            (if js_lt r tgt then ''win'' else ''loss''))"
  by (simp add: verifyGame_def Let_def)

theorem verifyGame_steps_witness:
  "commitSeed example_crypto ''seed'' \<noteq> ''not the hash''
   \<and> verifyGame example_crypto ''seed'' ''not the hash'' ''entropy'' (Num 7) (Num 32768)
       = Unverified ''Server seed does not match committed hash''
   \<and> commitSeed example_crypto ''seed'' = ''seed''
   \<and> \<not> js_strict_eq (generateRoll example_crypto ''seed'' ''entropy'') (Num 7)
   \<and> verifyGame example_crypto ''seed'' ''seed'' ''entropy'' (Num 7) (Num 32768)
       = Unverified ''Roll does not match HMAC computation''
   \<and> js_strict_eq (generateRoll example_crypto ''seed'' ''entropy'') (Num 0)
   \<and> verifyGame example_crypto ''seed'' ''seed'' ''entropy'' (Num 0) (Num 32768)
       = Verified ''seed'' ''seed'' ''entropy'' (Num 0) (Num 32768) ''win''"
proof -
  have h1: "commitSeed example_crypto ''seed'' \<noteq> ''not the hash''" by code_simp
  have h2: "commitSeed example_crypto ''seed'' = ''seed''" by code_simp
  have h3: "\<not> js_strict_eq (generateRoll example_crypto ''seed'' ''entropy'') (Num 7)"
    by code_simp
  have h4: "js_strict_eq (generateRoll example_crypto ''seed'' ''entropy'') (Num 0)"
    by code_simp
  have g: "generateRoll example_crypto ''seed'' ''entropy'' = Num 0" by code_simp
  from verifyGame_steps [of example_crypto "''seed''" "''not the hash''" "''entropy''"
      "Num 7" "Num 32768"] h1
  have 1: "verifyGame example_crypto ''seed'' ''not the hash'' ''entropy'' (Num 7) (Num 32768)
       = Unverified ''Server seed does not match committed hash''" by blast
  from verifyGame_steps [of example_crypto "''seed''" "''seed''" "''entropy''"
      "Num 7" "Num 32768"] h2 h3
  have 2: "verifyGame example_crypto ''seed'' ''seed'' ''entropy'' (Num 7) (Num 32768)
       = Unverified ''Roll does not match HMAC computation''" by blast
  from verifyGame_steps [of example_crypto "''seed''" "''seed''" "''entropy''"
      "Num 0" "Num 32768"] h2 h4
  have 3: "verifyGame example_crypto ''seed'' ''seed'' ''entropy'' (Num 0) (Num 32768)
       = Verified ''seed'' ''seed'' ''entropy'' (Num 0) (Num 32768) ''win''"
    by (simp add: g)
  from h1 h2 h3 h4 1 2 3 show ?thesis by blast
qed

text \<open>
  C6. For every target, stake, secret and entropy, \<open>verifyGame\<close> on the fields of
  the record produced by \<open>resolveGame\<close> returns \<open>verified = true\<close> (with the record's
  own result); with the roll replaced by any different value, in particular any
  different value in \<open>[0, 65535]\<close>, it returns \<open>verified = false\<close> with the reason of
  the outcome check.
\<close>

theorem verify_resolve_roundtrip:
  "let g = resolveGame cfg cr tgt bet seed entropy in
     verifyGame cr (serverSeed g) (serverSeedHash g) (clientEntropy g) (roll g) (target g)
       = Verified seed (commitSeed cr seed) entropy (roll g) tgt (result g)
   \<and> verified (verifyGame cr (serverSeed g) (serverSeedHash g) (clientEntropy g)
         (roll g) (target g))
   \<and> (\<forall>r'. r' \<noteq> roll g \<longrightarrow>
         verifyGame cr (serverSeed g) (serverSeedHash g) (clientEntropy g) r' (target g)
           = Unverified ''Roll does not match HMAC computation''
       \<and> \<not> verified (verifyGame cr (serverSeed g) (serverSeedHash g) (clientEntropy g)
               r' (target g)))"
proof -
  obtain k where k: "generateRoll cr seed entropy = Num k"
    using generateRoll_Num by blast
  show ?thesis
    by (auto simp: resolveGame_def verifyGame_def Let_def k js_strict_eq_Num verified_def)
qed

theorem verify_resolve_roundtrip_witness:
  "verified (verifyGame example_crypto ''seed'' ''seed'' ''entropy'' (Num 0) (Num 32768))
   \<and> Num 1 \<noteq> roll (resolveGame default_config example_crypto (Num 32768) (Num 100)
                    ''seed'' ''entropy'')
   \<and> verifyGame example_crypto ''seed'' ''seed'' ''entropy'' (Num 1) (Num 32768)
       = Unverified ''Roll does not match HMAC computation''"
proof -
  define g where
    "g = resolveGame default_config example_crypto (Num 32768) (Num 100) ''seed'' ''entropy''"
  have f: "serverSeed g = ''seed''" "serverSeedHash g = ''seed''"
    "clientEntropy g = ''entropy''" "roll g = Num 0" "target g = Num 32768"
    by (simp_all add: g_def example_game_32768)
  have h: "Num 1 \<noteq> roll g" by (simp add: f)
  from verify_resolve_roundtrip [of default_config example_crypto "Num 32768" "Num 100"
      "''seed''" "''entropy''"]
  have "verified (verifyGame example_crypto (serverSeed g) (serverSeedHash g)
          (clientEntropy g) (roll g) (target g))"
    and "\<forall>r'. r' \<noteq> roll g \<longrightarrow>
          verifyGame example_crypto (serverSeed g) (serverSeedHash g) (clientEntropy g) r'
            (target g) = Unverified ''Roll does not match HMAC computation''"
    unfolding g_def Let_def by blast+
  with h show ?thesis unfolding f g_def [symmetric] by (simp add: f)
qed

lemma saveGame_Inr:
  assumes "saveGame d game tm = Inr d'"
  shows "\<exists>row. d' = d @ [row] \<and> gid game \<notin> row_id ` set d
           \<and> row_id row = gid game \<and> row_roll row = roll game
           \<and> row_target row = target game \<and> row_result row = result game
           \<and> bet_sats row = betSats game \<and> row_multiplier row = multiplier game
           \<and> payout_sats row = payoutSats game
           \<and> payout_status row = or_else (payoutStatus game)
                (if result game = ''loss'' then ''n/a'' else ''pending'')
           \<and> server_seed row = serverSeed game
           \<and> server_seed_hash row = serverSeedHash game
           \<and> client_entropy row = clientEntropy game"
  using assms by (auto simp: saveGame_def split: if_splits)

lemma getGame_append_new:
  assumes "gameId \<notin> row_id ` set d" and "row_id row = gameId"
  shows "getGame (d @ [row]) gameId = Some row"
  using assms by (induction d) (auto simp: getGame_def)

lemma getGame_map_same_id:
  assumes "\<And>r. row_id (f r) = row_id r"
  shows "getGame (map f d) gameId = map_option f (getGame d gameId)"
  by (induction d) (simp_all add: getGame_def assms)

lemma verify_row_honest:
  assumes "server_seed g = seed" and "server_seed_hash g = commitSeed cr seed"
    and "client_entropy g = entropy" and "row_roll g = generateRoll cr seed entropy"
  shows "verified (verify_row cr g)"
proof -
  obtain k where k: "generateRoll cr seed entropy = Num k"
    using generateRoll_Num by blast
  show ?thesis
    by (simp add: verify_row_def verifyGame_def Let_def assms k js_strict_eq_Num verified_def)
qed

lemma verify_handler_verified:
  assumes "getGame d gameId = Some g" and "verified (verify_row cr g)"
  shows "field (verify_handler cr d gameId) ''verified'' = Some (JBool True)"
  using assms
  by (cases "verify_row cr g")
     (simp_all add: verify_handler_def field_def verification_fields_def verified_def)

text \<open>
  C10. The verification of a stored game reads the columns \<open>server_seed\<close>,
  \<open>server_seed_hash\<close>, \<open>client_entropy\<close>, \<open>roll\<close> and \<open>target\<close> only: two rows equal
  in these five verify identically. Hence a row saved from a resolved game still
  verifies, and \<open>GET /verify\<close> still answers \<open>verified = true\<close>, after its stored
  result, payout and multiplier have been overwritten.
\<close>

theorem verify_ignores_result_fields:
  "(server_seed g1 = server_seed g2 \<and> server_seed_hash g1 = server_seed_hash g2
      \<and> client_entropy g1 = client_entropy g2 \<and> row_roll g1 = row_roll g2
      \<and> row_target g1 = row_target g2
    \<longrightarrow> verify_row cr g1 = verify_row cr g2)
   \<and> (saveGame d
         (game_result.extend (resolveGame cfg cr tgt bet seed entropy)
            (game_record.fields gameId payoutMeth pstatus pubkey)) tm = Inr d'
    \<longrightarrow> (\<exists>g. getGame d' gameId = Some g
          \<and> verified (verify_row cr (g\<lparr>row_result := res', payout_sats := pay',
                                       row_multiplier := mult'\<rparr>))
          \<and> field (verify_handler cr
                     (map (\<lambda>r. if row_id r = gameId
                                then r\<lparr>row_result := res', payout_sats := pay',
                                       row_multiplier := mult'\<rparr>
                                else r) d') gameId) ''verified'' = Some (JBool True)))"
proof (intro conjI impI)
  assume "server_seed g1 = server_seed g2 \<and> server_seed_hash g1 = server_seed_hash g2
      \<and> client_entropy g1 = client_entropy g2 \<and> row_roll g1 = row_roll g2
      \<and> row_target g1 = row_target g2"
  then show "verify_row cr g1 = verify_row cr g2" by (simp add: verify_row_def)
next
  define game where "game = game_result.extend (resolveGame cfg cr tgt bet seed entropy)
            (game_record.fields gameId payoutMeth pstatus pubkey)"
  define tamper :: "game_row \<Rightarrow> game_row" where "tamper = (\<lambda>r. r\<lparr>row_result := res', payout_sats := pay',
                                       row_multiplier := mult'\<rparr>)"
  define f where "f = (\<lambda>r. if row_id r = gameId then tamper r else r)"
  assume "saveGame d
         (game_result.extend (resolveGame cfg cr tgt bet seed entropy)
            (game_record.fields gameId payoutMeth pstatus pubkey)) tm = Inr d'"
  then have sv: "saveGame d game tm = Inr d'" by (simp add: game_def)
  have gf: "gid game = gameId" "serverSeed game = seed"
    "serverSeedHash game = commitSeed cr seed" "clientEntropy game = entropy"
    "roll game = generateRoll cr seed entropy"
    by (simp_all add: game_def game_result.defs game_record.defs resolveGame_def Let_def)
  from saveGame_Inr [OF sv] obtain row where row: "d' = d @ [row]"
    and new: "gid game \<notin> row_id ` set d" and rid: "row_id row = gid game"
    and rf: "server_seed row = serverSeed game" "server_seed_hash row = serverSeedHash game"
      "client_entropy row = clientEntropy game" "row_roll row = roll game"
    by blast
  from new rid have gg: "getGame d' gameId = Some row"
    unfolding row gf(1) by (rule getGame_append_new)
  have tv: "verified (verify_row cr (tamper row))"
    by (rule verify_row_honest [where seed = seed and entropy = entropy])
       (simp_all add: tamper_def rf gf)
  have fid: "\<And>r. row_id (f r) = row_id r" by (simp add: f_def tamper_def)
  have "getGame (map f d') gameId = Some (f row)"
    by (simp add: getGame_map_same_id [OF fid] gg)
  moreover have "f row = tamper row" using rid gf(1) by (simp add: f_def)
  ultimately have "getGame (map f d') gameId = Some (tamper row)" by simp
  from verify_handler_verified [OF this tv]
  have "field (verify_handler cr (map f d') gameId) ''verified'' = Some (JBool True)" .
  with gg tv show "\<exists>g. getGame d' gameId = Some g
          \<and> verified (verify_row cr (g\<lparr>row_result := res', payout_sats := pay',
                                       row_multiplier := mult'\<rparr>))
          \<and> field (verify_handler cr
                     (map (\<lambda>r. if row_id r = gameId
                                then r\<lparr>row_result := res', payout_sats := pay',
                                       row_multiplier := mult'\<rparr>
                                else r) d') gameId) ''verified'' = Some (JBool True)"
    unfolding f_def tamper_def by blast
qed

theorem verify_ignores_result_fields_witness:
  "saveGame []
     (game_result.extend
        (resolveGame default_config example_crypto (Num 32768) (Num 100) ''seed'' ''entropy'')
        (game_record.fields ''g_00000000'' ''keysend'' ''pending'' None))
     ''2024-01-01 00:00:00'' = Inr example_ledger
   \<and> (\<exists>g. getGame example_ledger ''g_00000000'' = Some g
        \<and> verified (verify_row example_crypto
              (g\<lparr>row_result := ''loss'', payout_sats := Num 1000000, row_multiplier := Num 0\<rparr>))
        \<and> field (verify_handler example_crypto
              (map (\<lambda>r. if row_id r = ''g_00000000''
                         then r\<lparr>row_result := ''loss'', payout_sats := Num 1000000,
                                row_multiplier := Num 0\<rparr>
                         else r) example_ledger) ''g_00000000'') ''verified''
            = Some (JBool True))
   \<and> verify_row example_crypto (hd example_ledger)
       = verify_row example_crypto
           ((hd example_ledger)\<lparr>row_result := ''loss'', payout_sats := Num 1000000\<rparr>)"
proof -
  have h: "saveGame []
     (game_result.extend
        (resolveGame default_config example_crypto (Num 32768) (Num 100) ''seed'' ''entropy'')
        (game_record.fields ''g_00000000'' ''keysend'' ''pending'' None))
     ''2024-01-01 00:00:00'' = Inr example_ledger"
    by (simp add: example_ledger_eq example_row_def saveGame_def example_game_32768
        game_result.defs game_record.defs or_else_def or_null_def)
  note inst = verify_ignores_result_fields [where ?g1.0 = "hd example_ledger"
      and ?g2.0 = "(hd example_ledger)\<lparr>row_result := ''loss'', payout_sats := Num 1000000\<rparr>"
      and cr = example_crypto and d = "[]" and cfg = default_config
      and tgt = "Num 32768" and bet = "Num 100" and seed = "''seed''"
      and entropy = "''entropy''" and gameId = "''g_00000000''" and payoutMeth = "''keysend''"
      and pstatus = "''pending''" and pubkey = None and tm = "''2024-01-01 00:00:00''"
      and d' = example_ledger and res' = "''loss''" and pay' = "Num 1000000"
      and mult' = "Num 0"]
  from inst h have 1: "\<exists>g. getGame example_ledger ''g_00000000'' = Some g
        \<and> verified (verify_row example_crypto
              (g\<lparr>row_result := ''loss'', payout_sats := Num 1000000, row_multiplier := Num 0\<rparr>))
        \<and> field (verify_handler example_crypto
              (map (\<lambda>r. if row_id r = ''g_00000000''
                         then r\<lparr>row_result := ''loss'', payout_sats := Num 1000000,
                                row_multiplier := Num 0\<rparr>
                         else r) example_ledger) ''g_00000000'') ''verified''
            = Some (JBool True)"
    by blast
  from inst have 2: "verify_row example_crypto (hd example_ledger)
       = verify_row example_crypto
           ((hd example_ledger)\<lparr>row_result := ''loss'', payout_sats := Num 1000000\<rparr>)"
    by simp
  from h 1 2 show ?thesis by blast
qed

section \<open>The roll handler\<close>

lemma js_lt_NaN_right [simp]: "js_lt x NaN = False"
  by (cases x) simp_all

lemma parseInt_abc: "parseInt ''abc'' = NaN"
  by code_simp

lemma error_response_eq:
  "error_response c1 e1 = error_response c2 e2 \<longleftrightarrow> c1 = c2 \<and> e1 = e2"
  by (auto simp: error_response_def)

lemma status_error_response [simp]: "status (error_response c e) = c"
  by (simp add: error_response_def)

text \<open>
  C8 fails on the code for a non-numeric target: \<open>parseInt\<close> gives NaN, both
  comparisons of the range check are false for NaN, and the request is not answered
  with \<open>400 invalid_target\<close>, for any configuration. Under the default configuration
  the wager is resolved, the insert of its record fails, and the answer is
  \<open>500 internal\<close>.
\<close>

theorem nonnumeric_target_not_rejected:
  "fst (roll_handler cfg cr e (req\<lparr>q_target := Some ''abc''\<rparr>) d)
     \<noteq> error_response 400 ''invalid_target''
   \<and> roll_handler default_config example_crypto example_env
        (example_request\<lparr>q_target := Some ''abc''\<rparr>) []
     = (error_response 500 ''internal'', [])"
proof
  have t: "parse_param (q_target (req\<lparr>q_target := Some ''abc''\<rparr>)) (defaultTarget cfg) = NaN"
    by (simp add: parse_param_def or_null_def parseInt_abc)
  have "status (fst (roll_handler cfg cr e (req\<lparr>q_target := Some ''abc''\<rparr>) d)) \<noteq> 400
      \<or> fst (roll_handler cfg cr e (req\<lparr>q_target := Some ''abc''\<rparr>) d)
          = error_response 400 ''invalid_bet''"
    unfolding roll_handler_def Let_def t
    by (simp add: js_gt_def split: option.split sum.split)
  then show "fst (roll_handler cfg cr e (req\<lparr>q_target := Some ''abc''\<rparr>) d)
     \<noteq> error_response 400 ''invalid_target''"
    by (auto simp: error_response_eq)
  show "roll_handler default_config example_crypto example_env
        (example_request\<lparr>q_target := Some ''abc''\<rparr>) []
     = (error_response 500 ''internal'', [])"
    by code_simp
qed

lemma field_error_response_result [simp]:
  "field (error_response c err) ''result'' = None"
  by (simp add: field_def error_response_def)


text \<open>
  C2 fails on the code. For every request that \<open>/roll\<close> answers with a win and a
  positive payout, the row stored under the game's identifier has the payout status
  \<open>pending\<close> when the handler has finished, while the response reports \<open>sent\<close>
  (development mode) or \<open>failed\<close> (production, where the payout throws): the status
  after delivery is written to the object in memory and to the response only.
\<close>

theorem payout_status_not_persisted:
  assumes "roll_handler cfg cr e req d = (resp, d')"
    and "field resp ''result'' = Some (JStr ''win'')"
    and "field resp ''payout_sats'' = Some (JNum p)"
    and "js_gt p (Num 0)"
  shows "(\<exists>row. getGame d' (new_gameId e) = Some row \<and> payout_status row = ''pending'')
       \<and> field resp ''payout_status''
           = Some (JStr (if devMode cfg then ''sent'' else ''failed''))"
proof -
  define tgt where "tgt = parse_param (q_target req) (defaultTarget cfg)"
  define bet where "bet = parse_param (q_bet req) (defaultBet cfg)"
  define pm where
    "pm = (case or_null (q_payout req) of Some m \<Rightarrow> m | None \<Rightarrow> ''keysend'')"
  note h = assms(1) [unfolded roll_handler_def Let_def, folded tgt_def bet_def pm_def]
  from h assms(2) have v1: "\<not> (js_lt tgt (Num 1) \<or> js_gt tgt (maxRoll cfg))"
    by (auto split: if_splits)
  from h assms(2) v1 have v2: "\<not> (js_lt bet (minBet cfg) \<or> js_gt bet (maxBet cfg))"
    by (auto split: if_splits)
  from h assms(2) v1 v2 obtain entropy
    where en: "or_null (extractClientEntropy cfg e req) = Some entropy"
    by (cases "or_null (extractClientEntropy cfg e req)") auto
  define g where "g = resolveGame cfg cr tgt bet (new_serverSeed e) entropy"
  define rec where "rec = game_result.extend g
      (game_record.fields (new_gameId e) pm
         (if result g = ''loss'' then ''n/a'' else ''pending'') (extractPlayerPubkey req))"
  note h2 = h [unfolded en, simplified v1 v2, simplified, folded g_def, folded rec_def]
  from h2 assms(2) obtain d2 where sv: "saveGame d rec (now e) = Inr d2"
    by (cases "saveGame d rec (now e)") auto
  note h3 = h2 [unfolded sv, simplified]
  from h3 have d': "d' = d2" and
    resp: "field resp ''result'' = Some (JStr (result g))"
      "field resp ''payout_sats'' = Some (JNum (payoutSats g))"
      "field resp ''payout_status'' = Some (JStr
         (if result g = ''win'' \<and> js_gt (payoutSats g) (Num 0)
          then (case sendPayout cfg (extractPlayerPubkey req) (payoutSats g) (new_gameId e) of
                  Inr info \<Rightarrow> ''sent'' | Inl err \<Rightarrow> ''failed'')
          else payoutStatus rec))"
    by (auto simp: field_def)
  from resp(1) assms(2) have win: "result g = ''win''" by simp
  from resp(2) assms(3) have pay: "payoutSats g = p" by simp
  have recf: "gid rec = new_gameId e" "result rec = ''win''" "payoutStatus rec = ''pending''"
    by (simp_all add: rec_def game_result.defs game_record.defs win)
  from saveGame_Inr [OF sv] obtain row where row: "d2 = d @ [row]"
    and new: "gid rec \<notin> row_id ` set d" and rid: "row_id row = gid rec"
    and st: "payout_status row = or_else (payoutStatus rec)
                (if result rec = ''loss'' then ''n/a'' else ''pending'')"
    by blast
  from new rid have "getGame d2 (new_gameId e) = Some row"
    unfolding row recf(1) by (rule getGame_append_new)
  moreover from st have "payout_status row = ''pending''"
    by (simp add: recf or_else_def)
  ultimately have 1: "\<exists>row. getGame d' (new_gameId e) = Some row \<and> payout_status row = ''pending''"
    by (simp add: d')
  from resp(3) win pay assms(4)
  have 2: "field resp ''payout_status''
           = Some (JStr (if devMode cfg then ''sent'' else ''failed''))"
    by (simp add: sendPayout_def)
  from 1 2 show ?thesis ..
qed


theorem payout_status_not_persisted_witness:
  "field (fst (roll_handler default_config example_crypto example_env example_request []))
      ''result'' = Some (JStr ''win'')
   \<and> field (fst (roll_handler default_config example_crypto example_env example_request []))
      ''payout_sats'' = Some (JNum (Num 197))
   \<and> js_gt (Num 197) (Num 0)
   \<and> (\<exists>row. getGame (snd (roll_handler default_config example_crypto example_env
                 example_request [])) ''g_00000000'' = Some row
          \<and> payout_status row = ''pending'')
   \<and> field (fst (roll_handler default_config example_crypto example_env example_request []))
      ''payout_status'' = Some (JStr ''sent'')
   \<and> field (fst (roll_handler (default_config\<lparr>devMode := False\<rparr>) example_crypto example_env
        (example_request\<lparr>h_authorization := Some ''L402 macaroon:preimage''\<rparr>) []))
      ''result'' = Some (JStr ''win'')
   \<and> (\<exists>row. getGame (snd (roll_handler (default_config\<lparr>devMode := False\<rparr>) example_crypto
                 example_env
                 (example_request\<lparr>h_authorization := Some ''L402 macaroon:preimage''\<rparr>) []))
               ''g_00000000'' = Some row
          \<and> payout_status row = ''pending'')
   \<and> field (fst (roll_handler (default_config\<lparr>devMode := False\<rparr>) example_crypto example_env
        (example_request\<lparr>h_authorization := Some ''L402 macaroon:preimage''\<rparr>) []))
      ''payout_status'' = Some (JStr ''failed'')"
proof -
  define R where
    "R = roll_handler default_config example_crypto example_env example_request []"
  define P where
    "P = roll_handler (default_config\<lparr>devMode := False\<rparr>) example_crypto example_env
           (example_request\<lparr>h_authorization := Some ''L402 macaroon:preimage''\<rparr>) []"
  have r1: "field (fst R) ''result'' = Some (JStr ''win'')"
    and r2: "field (fst R) ''payout_sats'' = Some (JNum (Num 197))"
    and p1: "field (fst P) ''result'' = Some (JStr ''win'')"
    and p2: "field (fst P) ''payout_sats'' = Some (JNum (Num 197))"
    by (simp_all add: R_def P_def example_roll_default example_roll_production
        field_def example_body_def)
  have gt: "js_gt (Num 197) (Num 0)" by (simp add: js_gt_def)
  have id: "new_gameId example_env = ''g_00000000''" by (simp add: example_env_def)
  have dm: "devMode default_config" "\<not> devMode (default_config\<lparr>devMode := False\<rparr>)"
    by (simp_all add: default_config_def)
  have R: "R = (fst R, snd R)" and P: "P = (fst P, snd P)" by simp_all
  from payout_status_not_persisted [OF R [unfolded R_def] r1 [unfolded R_def]
      r2 [unfolded R_def] gt]
  have 1: "(\<exists>row. getGame (snd R) ''g_00000000'' = Some row \<and> payout_status row = ''pending'')
       \<and> field (fst R) ''payout_status'' = Some (JStr ''sent'')"
    unfolding R_def id using dm(1) by simp
  from payout_status_not_persisted [OF P [unfolded P_def] p1 [unfolded P_def]
      p2 [unfolded P_def] gt]
  have 2: "(\<exists>row. getGame (snd P) ''g_00000000'' = Some row \<and> payout_status row = ''pending'')
       \<and> field (fst P) ''payout_status'' = Some (JStr ''failed'')"
    unfolding P_def id using dm(2) by simp
  from r1 r2 gt 1 p1 2 show ?thesis unfolding R_def P_def by blast
qed

text \<open>
  C1 fails on the code. The configuration documents the stake ceiling as
  \<open>min(configured maxBet, bankroll / maxMultiplier / safetyFactor)\<close> and defines
  \<open>getDynamicMaxBet\<close> to compute it, but the roll handler never calls it: with the default
  bankroll of 1000000 the ceiling is \<open>min(50000, floor(1000000 / multiplier(1) / 3)) = 5\<close>,
  and the request \<open>GET /roll?bet=100\<close>, whose stake lies within the configured limits and
  above that ceiling, is answered with status 200 and its wager is recorded.
\<close>

theorem dynamic_ceiling_not_enforced:
  "getDynamicMaxBet default_config (bankroll_initial default_config) = Num 5
   \<and> js_gt (Num 100) (getDynamicMaxBet default_config (bankroll_initial default_config))
   \<and> parse_param (q_bet (example_request\<lparr>q_bet := Some ''100''\<rparr>)) (defaultBet default_config)
       = Num 100
   \<and> status (fst (roll_handler default_config example_crypto example_env
        (example_request\<lparr>q_bet := Some ''100''\<rparr>) [])) = 200
   \<and> map bet_sats (snd (roll_handler default_config example_crypto example_env
        (example_request\<lparr>q_bet := Some ''100''\<rparr>) [])) = [Num 100]"
proof -
  have c: "getDynamicMaxBet default_config (bankroll_initial default_config) = Num 5"
    by code_simp
  have b: "parse_param (q_bet (example_request\<lparr>q_bet := Some ''100''\<rparr>))
             (defaultBet default_config) = Num 100"
    by code_simp
  from c b show ?thesis
    by (simp add: js_gt_def example_roll_bet_100 example_row_def)
qed

section \<open>The leaderboard\<close>

subsection \<open>Integers that are doubles\<close>




subsection \<open>Rounding is monotone and idempotent\<close>























subsection \<open>The order of the rows\<close>

























subsection \<open>The order of the numbers returned\<close>

lemma to_double_not_NaN [simp]: "to_double x \<noteq> NaN"
proof -
  define B :: rat where "B = 2 ^ 1024"
  show ?thesis unfolding to_double_def Let_def B_def [symmetric] by simp
qed

lemma js_lt_PosInf_left [simp]: "js_lt PosInf z = False"
  by (cases z) simp_all

lemma js_lt_NegInf_right [simp]: "js_lt z NegInf = False"
  by (cases z) simp_all









subsection \<open>Ledgers within the range of exact doubles\<close>












lemma sql_less_ints [simp]: "sql_less (SqlInt i) (SqlInt j) = (i < j)"
  by (simp add: sql_less_def sql_lt_def)

lemma sql_less_Null_int [simp]: "sql_less SqlNull (SqlInt j)"
  by (simp add: sql_less_def sql_lt_def)












subsection \<open>The examples, evaluated\<close>







lemma player_js_row [simp]: "lb_player_pubkey (js_row q) = lb_player_pubkey q"
  by (simp add: js_row_def)




end
